theory Spec2Isabelle
  imports Complex_Main
begin

section \<open>The endless-runner engine of \<^verbatim>\<open>src/lib/gameEngine.ts\<close>\<close>

text \<open>
  The engine is one TypeScript file. Its \<^verbatim>\<open>number\<close> values are modelled by what they
  hold: lane indices, lives and \<^verbatim>\<open>Date.now()\<close> millisecond timestamps are \<open>int\<close>;
  positions, velocities, the score, frame times and countdowns are \<open>real\<close> (the ideal
  value of the double). Mutation is explicit state passing on records. The two
  ambient inputs of the code are parameters: \<^verbatim>\<open>Math.random()\<close> is a stream
  \<open>rnd :: nat \<Rightarrow> real\<close> read at the position \<open>draws\<close> kept in the engine state, and
  \<^verbatim>\<open>Date.now()\<close> is passed to the function that reads it. Observer callbacks
  (\<^verbatim>\<open>onStateChange\<close>, \<^verbatim>\<open>onScoreChange\<close>, \<^verbatim>\<open>onFpsChange\<close>, \<^verbatim>\<open>onPlaySound\<close>) append to the
  \<open>events\<close> log. The engine record also holds what the code reads from its surroundings:
  the dimensions of the canvas and whether the touch or the key listeners are installed
  (\<open>isMobile\<close>). Rendering changes no state and is not modelled.
\<close>

subsection \<open>Types\<close>

datatype GameState = Menu | Playing | Paused | GameOver

datatype PowerUpType = Magnet | Speed | Shield

datatype ObstacleType = Barrier | Train | Low

datatype event =
    StateChange GameState
  | ScoreChange int
  | FpsChange real
  | PlaySound string

record Vector2D =
  vx :: real
  vy :: real

record Hitbox =
  hb_x :: real
  hb_y :: real
  hb_width :: real
  hb_height :: real

record Particle =
  pa_position :: Vector2D
  pa_velocity :: Vector2D
  pa_color :: string
  life :: real
  maxLife :: real

record Player =
  pl_position :: Vector2D
  pl_velocity :: Vector2D
  currentLane :: int
  targetLane :: int
  isJumping :: bool
  isSliding :: bool
  pl_groundY :: real
  jumpHeight :: real
  slideTime :: real
  pl_width :: real
  pl_height :: real
  pl_animationFrame :: real
  invulnerable :: bool
  invulnerableTime :: real

record Obstacle =
  ob_position :: Vector2D
  ob_lane :: int
  ob_type :: ObstacleType
  ob_width :: real
  ob_height :: real

record Coin =
  co_position :: Vector2D
  co_lane :: int
  co_width :: real
  co_height :: real
  co_collected :: bool
  co_animationFrame :: real
  magnetTarget :: "Vector2D option"

record PowerUp =
  pu_position :: Vector2D
  pu_lane :: int
  pu_type :: PowerUpType
  pu_width :: real
  pu_height :: real
  pu_collected :: bool
  pu_animationFrame :: real

record GameEngine =
  state :: GameState
  isMobile :: bool
  canvas_width :: real
  canvas_height :: real
  lastTime :: real
  fpsCounter :: int
  fpsTime :: real
  player :: Player
  obstacles :: "Obstacle list"
  coins :: "Coin list"
  powerUps :: "PowerUp list"
  particles :: "Particle list"
  lanePositions :: "real list"
  gameSpeed :: real
  baseSpeed :: real
  score :: real
  highScore :: real
  lives :: int
  groundY :: real
  lastObstacleSpawn :: int
  lastCoinSpawn :: int
  lastPowerUpSpawn :: int
  obstacleSpawnInterval :: int
  activePowerUps :: "PowerUpType \<rightharpoonup> int"
  keys :: "string set"
  touchStartX :: real
  touchStartY :: real
  events :: "event list"
  draws :: nat

datatype config_error = ConfigError

subsection \<open>Utility functions\<close>

definition clamp :: "'a::linorder \<Rightarrow> 'a \<Rightarrow> 'a \<Rightarrow> 'a" where
  "clamp v mn mx = max mn (min mx v)"

definition lerp :: "real \<Rightarrow> real \<Rightarrow> real \<Rightarrow> real" where
  "lerp start end' factor = start + (end' - start) * factor"

text \<open>\<^verbatim>\<open>random(min, max)\<close>, with the \<^verbatim>\<open>Math.random()\<close> draw \<open>r\<close> it consumes.\<close>

definition random :: "real \<Rightarrow> real \<Rightarrow> real \<Rightarrow> real" where
  "random r mn mx = r * (mx - mn) + mn"

definition Vector2D_new :: "real \<Rightarrow> real \<Rightarrow> Vector2D" where
  "Vector2D_new a b = \<lparr>vx = a, vy = b\<rparr>"

definition add :: "Vector2D \<Rightarrow> Vector2D \<Rightarrow> Vector2D" where
  "add v other = Vector2D_new (vx v + vx other) (vy v + vy other)"

definition multiply :: "Vector2D \<Rightarrow> real \<Rightarrow> Vector2D" where
  "multiply v scalar = Vector2D_new (vx v * scalar) (vy v * scalar)"

definition distance :: "Vector2D \<Rightarrow> Vector2D \<Rightarrow> real" where
  "distance v other =
     (let dx = vx v - vx other; dy = vy v - vy other in sqrt (dx * dx + dy * dy))"

text \<open>
  \<^verbatim>\<open>lanePositions[i]\<close>. The constructor builds exactly three entries, and every index the
  code reads is in \<open>{0, 1, 2}\<close>: the target lane is clamped, a cluster's lane is
  \<open>min(2, base + i)\<close>, and a spawn lane is \<open>floor(3 r)\<close> for a draw \<open>r\<close> of \<^verbatim>\<open>Math.random()\<close>,
  which lies in \<open>[0, 1)\<close>. So the read is in range, and JavaScript's \<^verbatim>\<open>undefined\<close> for an index
  out of range does not arise.
\<close>

definition laneAt :: "real list \<Rightarrow> int \<Rightarrow> real" where
  "laneAt ls i = ls ! nat i"

subsection \<open>Particle\<close>

text \<open>
  Particles are cosmetic. The source hands \<^verbatim>\<open>createParticles\<close> the position object of the
  player or of the collected entity, and a particle replaces it by a fresh vector in its
  first \<^verbatim>\<open>update\<close>; here a particle holds the position by value. No statement below reads
  a particle's position.
\<close>

definition Particle_new :: "Vector2D \<Rightarrow> Vector2D \<Rightarrow> string \<Rightarrow> Particle" where
  "Particle_new position velocity color =
     \<lparr>pa_position = position, pa_velocity = velocity, pa_color = color,
      life = 1000, maxLife = 1000\<rparr>"

definition Particle_update :: "real \<Rightarrow> Particle \<Rightarrow> Particle" where
  "Particle_update deltaTime p =
     p\<lparr>pa_position := add (pa_position p) (multiply (pa_velocity p) deltaTime),
       pa_velocity := multiply (pa_velocity p) 0.98,
       life := life p - deltaTime * 1000\<rparr>"

subsection \<open>Player\<close>

definition Player_new :: "real \<Rightarrow> real \<Rightarrow> real \<Rightarrow> Player" where
  "Player_new x y gY =
     \<lparr>pl_position = Vector2D_new x y, pl_velocity = Vector2D_new 0 0,
      currentLane = 1, targetLane = 1, isJumping = False, isSliding = False,
      pl_groundY = gY, jumpHeight = 150, slideTime = 0, pl_width = 40, pl_height = 60,
      pl_animationFrame = 0, invulnerable = False, invulnerableTime = 0\<rparr>"

definition steer :: "real \<Rightarrow> real list \<Rightarrow> Player \<Rightarrow> Player" where
  "steer deltaTime lanes p =
     (let tl = clamp (targetLane p) 0 2;
          targetX = laneAt lanes tl;
          px = lerp (vx (pl_position p)) targetX (deltaTime * 8);
          p1 = p\<lparr>targetLane := tl, pl_position := (pl_position p)\<lparr>vx := px\<rparr>\<rparr>
      in if \<bar>px - targetX\<bar> < 5 then p1\<lparr>currentLane := tl\<rparr> else p1)"

definition jumpPhysics :: "real \<Rightarrow> Player \<Rightarrow> Player" where
  "jumpPhysics deltaTime p =
     (if isJumping p then
        (let vely = vy (pl_velocity p) + 800 * deltaTime;
             posy = vy (pl_position p) + vely * deltaTime
         in if posy \<ge> pl_groundY p
            then p\<lparr>pl_position := (pl_position p)\<lparr>vy := pl_groundY p\<rparr>,
                   pl_velocity := (pl_velocity p)\<lparr>vy := 0\<rparr>,
                   isJumping := False\<rparr>
            else p\<lparr>pl_position := (pl_position p)\<lparr>vy := posy\<rparr>,
                   pl_velocity := (pl_velocity p)\<lparr>vy := vely\<rparr>\<rparr>)
      else p)"

definition slideMechanics :: "real \<Rightarrow> Player \<Rightarrow> Player" where
  "slideMechanics deltaTime p =
     (if isSliding p then
        (let st = slideTime p - deltaTime * 1000
         in if st \<le> 0 then p\<lparr>slideTime := st, isSliding := False\<rparr>
            else p\<lparr>slideTime := st\<rparr>)
      else p)"

definition invulnerabilityTimer :: "real \<Rightarrow> Player \<Rightarrow> Player" where
  "invulnerabilityTimer deltaTime p =
     (if invulnerable p then
        (let it = invulnerableTime p - deltaTime * 1000
         in if it \<le> 0 then p\<lparr>invulnerableTime := it, invulnerable := False\<rparr>
            else p\<lparr>invulnerableTime := it\<rparr>)
      else p)"

text \<open>\<^verbatim>\<open>Player.update\<close>: the five blocks of the method, in the order of the source.\<close>

definition Player_update :: "real \<Rightarrow> real list \<Rightarrow> Player \<Rightarrow> Player" where
  "Player_update deltaTime lanes p =
     (let p1 = steer deltaTime lanes p;
          p2 = jumpPhysics deltaTime p1;
          p3 = slideMechanics deltaTime p2;
          p4 = invulnerabilityTimer deltaTime p3
      in p4\<lparr>pl_animationFrame := pl_animationFrame p4 + deltaTime * 10\<rparr>)"

definition jump :: "Player \<Rightarrow> Player" where
  "jump p =
     (if \<not> isJumping p \<and> \<not> isSliding p
      then p\<lparr>isJumping := True, pl_velocity := (pl_velocity p)\<lparr>vy := - 600\<rparr>\<rparr>
      else p)"

definition slide :: "Player \<Rightarrow> Player" where
  "slide p =
     (if \<not> isJumping p \<and> \<not> isSliding p
      then p\<lparr>isSliding := True, slideTime := 800\<rparr>
      else p)"

definition moveLane :: "int \<Rightarrow> Player \<Rightarrow> Player" where
  "moveLane direction p = p\<lparr>targetLane := clamp (targetLane p + direction) 0 2\<rparr>"

definition Player_getHitbox :: "Player \<Rightarrow> Hitbox" where
  "Player_getHitbox p =
     (let height = (if isSliding p then pl_height p * 0.6 else pl_height p);
          y = (if isSliding p then vy (pl_position p) + pl_height p * 0.4
               else vy (pl_position p))
      in \<lparr>hb_x = vx (pl_position p) - pl_width p / 2, hb_y = y - height,
          hb_width = pl_width p, hb_height = height\<rparr>)"

subsection \<open>Obstacle, Coin, PowerUp\<close>

definition Obstacle_new :: "Vector2D \<Rightarrow> int \<Rightarrow> ObstacleType \<Rightarrow> Obstacle" where
  "Obstacle_new position lane type =
     (case type of
        Barrier \<Rightarrow> \<lparr>ob_position = position, ob_lane = lane, ob_type = type,
                    ob_width = 40, ob_height = 80\<rparr>
      | Train \<Rightarrow> \<lparr>ob_position = position, ob_lane = lane, ob_type = type,
                  ob_width = 60, ob_height = 100\<rparr>
      | Low \<Rightarrow> \<lparr>ob_position = position, ob_lane = lane, ob_type = type,
                ob_width = 50, ob_height = 40\<rparr>)"

definition Obstacle_update :: "real \<Rightarrow> real \<Rightarrow> Obstacle \<Rightarrow> Obstacle" where
  "Obstacle_update deltaTime speed ob =
     ob\<lparr>ob_position := (ob_position ob)\<lparr>vy := vy (ob_position ob) + speed * deltaTime\<rparr>\<rparr>"

definition Obstacle_getHitbox :: "Obstacle \<Rightarrow> Hitbox" where
  "Obstacle_getHitbox ob =
     \<lparr>hb_x = vx (ob_position ob) - ob_width ob / 2,
      hb_y = vy (ob_position ob) - ob_height ob,
      hb_width = ob_width ob, hb_height = ob_height ob\<rparr>"

definition Coin_new :: "Vector2D \<Rightarrow> int \<Rightarrow> Coin" where
  "Coin_new position lane =
     \<lparr>co_position = position, co_lane = lane, co_width = 20, co_height = 20,
      co_collected = False, co_animationFrame = 0, magnetTarget = None\<rparr>"

text \<open>
  \<^verbatim>\<open>Math.min(1, 300 / distance)\<close>: at distance 0 JavaScript divides to \<^verbatim>\<open>Infinity\<close> and the
  minimum is 1, where HOL's \<open>300 / 0\<close> is 0; the case is written out.
\<close>

definition magnetForce :: "real \<Rightarrow> real" where
  "magnetForce d = (if d = 0 then 1 else min 1 (300 / d))"

definition Coin_update :: "real \<Rightarrow> real \<Rightarrow> Vector2D \<Rightarrow> bool \<Rightarrow> Coin \<Rightarrow> Coin" where
  "Coin_update deltaTime speed playerPos magnetActive c =
     (let c1 = c\<lparr>co_animationFrame := co_animationFrame c + deltaTime * 15\<rparr>;
          c2 = (if magnetActive \<and> \<not> co_collected c1 \<and> distance (co_position c1) playerPos < 150
                then (let force = magnetForce (distance (co_position c1) playerPos)
                      in c1\<lparr>co_position :=
                            \<lparr>vx = lerp (vx (co_position c1)) (vx playerPos) (deltaTime * force * 5),
                             vy = lerp (vy (co_position c1)) (vy playerPos) (deltaTime * force * 5)\<rparr>\<rparr>)
                else c1)
      in if magnetTarget c2 = None
         then c2\<lparr>co_position := (co_position c2)\<lparr>vy := vy (co_position c2) + speed * deltaTime\<rparr>\<rparr>
         else c2)"

definition Coin_getHitbox :: "Coin \<Rightarrow> Hitbox" where
  "Coin_getHitbox c =
     \<lparr>hb_x = vx (co_position c) - co_width c / 2,
      hb_y = vy (co_position c) - co_height c / 2,
      hb_width = co_width c, hb_height = co_height c\<rparr>"

definition PowerUp_new :: "Vector2D \<Rightarrow> int \<Rightarrow> PowerUpType \<Rightarrow> PowerUp" where
  "PowerUp_new position lane type =
     \<lparr>pu_position = position, pu_lane = lane, pu_type = type, pu_width = 30,
      pu_height = 30, pu_collected = False, pu_animationFrame = 0\<rparr>"

definition PowerUp_update :: "real \<Rightarrow> real \<Rightarrow> PowerUp \<Rightarrow> PowerUp" where
  "PowerUp_update deltaTime speed pu =
     pu\<lparr>pu_position := (pu_position pu)\<lparr>vy := vy (pu_position pu) + speed * deltaTime\<rparr>,
        pu_animationFrame := pu_animationFrame pu + deltaTime * 8\<rparr>"

definition PowerUp_getHitbox :: "PowerUp \<Rightarrow> Hitbox" where
  "PowerUp_getHitbox pu =
     \<lparr>hb_x = vx (pu_position pu) - pu_width pu / 2,
      hb_y = vy (pu_position pu) - pu_height pu / 2,
      hb_width = pu_width pu, hb_height = pu_height pu\<rparr>"

definition isColliding :: "Hitbox \<Rightarrow> Hitbox \<Rightarrow> bool" where
  "isColliding rect1 rect2 \<longleftrightarrow>
     hb_x rect1 < hb_x rect2 + hb_width rect2 \<and>
     hb_x rect1 + hb_width rect1 > hb_x rect2 \<and>
     hb_y rect1 < hb_y rect2 + hb_height rect2 \<and>
     hb_y rect1 + hb_height rect1 > hb_y rect2"

subsection \<open>GameEngine: construction and game flow\<close>

text \<open>
  The constructor. \<open>cw\<close> and \<open>ch\<close> are the dimensions of \<^verbatim>\<open>ctx.canvas\<close>, which the engine
  reads live as \<^verbatim>\<open>this.canvas.height\<close>; \<open>width\<close> and \<open>height\<close> are the constructor's own
  arguments. \<open>GameEngine_init\<close> is the body. The source has no \<^verbatim>\<open>throw\<close> and no
  validation: the result type of \<open>GameEngine_new\<close> is a sum so that a failure can be
  expressed, and every input takes the \<open>Inr\<close> branch.
\<close>

definition GameEngine_init :: "real \<Rightarrow> real \<Rightarrow> real \<Rightarrow> real \<Rightarrow> bool \<Rightarrow> GameEngine" where
  "GameEngine_init cw ch width height mobile =
     (let lanes = [width * 0.25, width * 0.5, width * 0.75];
          gY = height * 0.8
      in \<lparr>state = Menu, isMobile = mobile, canvas_width = cw, canvas_height = ch,
          lastTime = 0, fpsCounter = 0, fpsTime = 0,
          player = Player_new (laneAt lanes 1) gY gY,
          obstacles = [], coins = [], powerUps = [], particles = [],
          lanePositions = lanes, gameSpeed = 300, baseSpeed = 300, score = 0,
          highScore = 0, lives = 3, groundY = gY,
          lastObstacleSpawn = 0, lastCoinSpawn = 0, lastPowerUpSpawn = 0,
          obstacleSpawnInterval = 2000, activePowerUps = Map.empty, keys = {},
          touchStartX = 0, touchStartY = 0, events = [], draws = 0\<rparr>)"

definition GameEngine_new ::
  "real \<Rightarrow> real \<Rightarrow> real \<Rightarrow> real \<Rightarrow> bool \<Rightarrow> config_error + GameEngine" where
  "GameEngine_new cw ch width height mobile = Inr (GameEngine_init cw ch width height mobile)"

definition emit :: "event \<Rightarrow> GameEngine \<Rightarrow> GameEngine" where
  "emit e g = g\<lparr>events := events g @ [e]\<rparr>"

definition setState :: "GameState \<Rightarrow> GameEngine \<Rightarrow> GameEngine" where
  "setState newState g = emit (StateChange newState) (g\<lparr>state := newState\<rparr>)"

definition resetGame :: "GameEngine \<Rightarrow> GameEngine" where
  "resetGame g =
     emit (ScoreChange 0)
       (g\<lparr>score := 0, lives := 3, gameSpeed := baseSpeed g,
          obstacles := [], coins := [], powerUps := [], particles := [],
          activePowerUps := Map.empty,
          lastObstacleSpawn := 0, lastCoinSpawn := 0, lastPowerUpSpawn := 0,
          player := Player_new (laneAt (lanePositions g) 1) (groundY g) (groundY g)\<rparr>)"

definition startGame :: "GameEngine \<Rightarrow> GameEngine" where
  "startGame g = setState Playing (resetGame g)"

definition pauseGame :: "GameEngine \<Rightarrow> GameEngine" where
  "pauseGame g = (if state g = Playing then setState Paused g else g)"

definition resumeGame :: "GameEngine \<Rightarrow> GameEngine" where
  "resumeGame g = (if state g = Paused then setState Playing g else g)"

definition setHighScore :: "real \<Rightarrow> GameEngine \<Rightarrow> GameEngine" where
  "setHighScore s g = g\<lparr>highScore := s\<rparr>"

subsection \<open>Spawning\<close>

definition spawnObstacle :: "(nat \<Rightarrow> real) \<Rightarrow> GameEngine \<Rightarrow> GameEngine" where
  "spawnObstacle rnd g =
     (let lane = \<lfloor>rnd (draws g) * 3\<rfloor>;
          type = [Barrier, Train, Low] ! nat \<lfloor>rnd (draws g + 1) * 3\<rfloor>;
          obstacle = Obstacle_new (Vector2D_new (laneAt (lanePositions g) lane) (- 100)) lane type
      in g\<lparr>obstacles := obstacles g @ [obstacle], draws := draws g + 2\<rparr>)"

text \<open>
  \<^verbatim>\<open>Math.random() < 0.3 ? 3 : Math.random() < 0.6 ? 2 : 1\<close>: \<open>r1\<close> is the first draw and
  \<open>r2\<close> the second, which is consumed only when the first test fails.
\<close>

definition numCoins :: "real \<Rightarrow> real \<Rightarrow> nat" where
  "numCoins r1 r2 = (if r1 < 0.3 then 3 else if r2 < 0.6 then 2 else 1)"

definition numCoinsDraws :: "real \<Rightarrow> nat" where
  "numCoinsDraws r1 = (if r1 < 0.3 then 1 else 2)"

definition clusterCoin :: "real list \<Rightarrow> int \<Rightarrow> nat \<Rightarrow> Coin" where
  "clusterCoin lanes baseLane i =
     (let lane = min 2 (baseLane + int i)
      in Coin_new (Vector2D_new (laneAt lanes lane) (- 100 - real i * 30)) lane)"

definition spawnCoin :: "(nat \<Rightarrow> real) \<Rightarrow> GameEngine \<Rightarrow> GameEngine" where
  "spawnCoin rnd g =
     (let n = numCoins (rnd (draws g)) (rnd (draws g + 1));
          used = numCoinsDraws (rnd (draws g));
          baseLane = \<lfloor>rnd (draws g + used) * 3\<rfloor>
      in g\<lparr>coins := coins g @ map (clusterCoin (lanePositions g) baseLane) [0..<n],
           draws := draws g + used + 1\<rparr>)"

definition spawnPowerUp :: "(nat \<Rightarrow> real) \<Rightarrow> GameEngine \<Rightarrow> GameEngine" where
  "spawnPowerUp rnd g =
     (let lane = \<lfloor>rnd (draws g) * 3\<rfloor>;
          type = [Magnet, Speed, Shield] ! nat \<lfloor>rnd (draws g + 1) * 3\<rfloor>;
          powerUp = PowerUp_new (Vector2D_new (laneAt (lanePositions g) lane) (- 100)) lane type
      in g\<lparr>powerUps := powerUps g @ [powerUp], draws := draws g + 2\<rparr>)"

subsection \<open>Collisions, effects, hits\<close>

fun createParticles ::
  "(nat \<Rightarrow> real) \<Rightarrow> Vector2D \<Rightarrow> string \<Rightarrow> nat \<Rightarrow> GameEngine \<Rightarrow> GameEngine" where
  "createParticles rnd position color 0 g = g"
| "createParticles rnd position color (Suc n) g =
     createParticles rnd position color n
       (g\<lparr>particles := particles g @
            [Particle_new position
               (Vector2D_new (random (rnd (draws g)) (- 100) 100)
                             (random (rnd (draws g + 1)) (- 100) (- 200)))
               color],
          draws := draws g + 2\<rparr>)"

definition duration :: "PowerUpType \<Rightarrow> int" where
  "duration type = (if type = Magnet then 8000 else if type = Speed then 6000 else 10000)"

text \<open>\<^verbatim>\<open>activatePowerUp\<close>, with the value \<open>now\<close> that its \<^verbatim>\<open>Date.now()\<close> returns.\<close>

definition activatePowerUp :: "int \<Rightarrow> PowerUpType \<Rightarrow> GameEngine \<Rightarrow> GameEngine" where
  "activatePowerUp now type g =
     (let g1 = g\<lparr>activePowerUps := (activePowerUps g)(type \<mapsto> now + duration type)\<rparr>
      in if type = Shield
         then g1\<lparr>player := (player g1)\<lparr>invulnerable := True,
                                        invulnerableTime := real_of_int (duration type)\<rparr>\<rparr>
         else g1)"

definition handlePlayerHit :: "(nat \<Rightarrow> real) \<Rightarrow> GameEngine \<Rightarrow> GameEngine" where
  "handlePlayerHit rnd g =
     (if activePowerUps g Shield \<noteq> None then g
      else
        (let g1 = g\<lparr>lives := lives g - 1\<rparr>;
             g2 = emit (PlaySound ''hit'') g1;
             g3 = createParticles rnd (pl_position (player g2)) ''#FF4444'' 10 g2;
             g4 = g3\<lparr>player := (player g3)\<lparr>invulnerable := True, invulnerableTime := 2000\<rparr>\<rparr>
         in if lives g4 \<le> 0
            then emit (PlaySound ''gameover'') (setState GameOver g4)
            else g4))"

definition powerUpColor :: "PowerUpType \<Rightarrow> string" where
  "powerUpColor type =
     (if type = Magnet then ''#9B59B6'' else if type = Speed then ''#E74C3C'' else ''#3498DB'')"

text \<open>
  The three loops of \<^verbatim>\<open>checkCollisions\<close>. The first two return the list with the
  \<^verbatim>\<open>collected\<close> flags they set, next to the engine; \<open>k\<close> counts the \<^verbatim>\<open>Date.now()\<close> reads
  of the tick's activations. The third stops at the first overlap (\<^verbatim>\<open>break\<close>).
\<close>

fun collectCoins ::
  "(nat \<Rightarrow> real) \<Rightarrow> Hitbox \<Rightarrow> Coin list \<Rightarrow> GameEngine \<Rightarrow> Coin list \<times> GameEngine" where
  "collectCoins rnd hb [] g = ([], g)"
| "collectCoins rnd hb (c # cs) g =
     (if \<not> co_collected c \<and> isColliding hb (Coin_getHitbox c)
      then apfst ((#) (c\<lparr>co_collected := True\<rparr>))
             (collectCoins rnd hb cs
                (createParticles rnd (co_position c) ''#FFD700'' 5
                   (emit (PlaySound ''coin'') (g\<lparr>score := score g + 10\<rparr>))))
      else apfst ((#) c) (collectCoins rnd hb cs g))"

fun collectPowerUps ::
  "(nat \<Rightarrow> int) \<Rightarrow> (nat \<Rightarrow> real) \<Rightarrow> Hitbox \<Rightarrow> PowerUp list \<Rightarrow> nat \<Rightarrow> GameEngine
     \<Rightarrow> PowerUp list \<times> GameEngine" where
  "collectPowerUps nowAt rnd hb [] k g = ([], g)"
| "collectPowerUps nowAt rnd hb (p # ps) k g =
     (if \<not> pu_collected p \<and> isColliding hb (PowerUp_getHitbox p)
      then apfst ((#) (p\<lparr>pu_collected := True\<rparr>))
             (collectPowerUps nowAt rnd hb ps (Suc k)
                (createParticles rnd (pu_position p) (powerUpColor (pu_type p)) 8
                   (emit (PlaySound ''powerup'') (activatePowerUp (nowAt k) (pu_type p) g))))
      else apfst ((#) p) (collectPowerUps nowAt rnd hb ps k g))"

fun hitFirst :: "(nat \<Rightarrow> real) \<Rightarrow> Hitbox \<Rightarrow> Obstacle list \<Rightarrow> GameEngine \<Rightarrow> GameEngine" where
  "hitFirst rnd hb [] g = g"
| "hitFirst rnd hb (ob # obs) g =
     (if isColliding hb (Obstacle_getHitbox ob) then handlePlayerHit rnd g
      else hitFirst rnd hb obs g)"

definition checkCoins :: "(nat \<Rightarrow> real) \<Rightarrow> Hitbox \<Rightarrow> GameEngine \<Rightarrow> GameEngine" where
  "checkCoins rnd hb g =
     (case collectCoins rnd hb (coins g) g of (cs, g1) \<Rightarrow> g1\<lparr>coins := cs\<rparr>)"

definition checkPowerUps ::
  "(nat \<Rightarrow> int) \<Rightarrow> (nat \<Rightarrow> real) \<Rightarrow> Hitbox \<Rightarrow> GameEngine \<Rightarrow> GameEngine" where
  "checkPowerUps nowAt rnd hb g =
     (case collectPowerUps nowAt rnd hb (powerUps g) 0 g of (ps, g1) \<Rightarrow> g1\<lparr>powerUps := ps\<rparr>)"

definition checkObstacles :: "(nat \<Rightarrow> real) \<Rightarrow> Hitbox \<Rightarrow> GameEngine \<Rightarrow> GameEngine" where
  "checkObstacles rnd hb g =
     (if \<not> invulnerable (player g) then hitFirst rnd hb (obstacles g) g else g)"

definition checkCollisions :: "(nat \<Rightarrow> int) \<Rightarrow> (nat \<Rightarrow> real) \<Rightarrow> GameEngine \<Rightarrow> GameEngine" where
  "checkCollisions nowAt rnd g =
     (let playerHitbox = Player_getHitbox (player g)
      in checkObstacles rnd playerHitbox
           (checkPowerUps nowAt rnd playerHitbox (checkCoins rnd playerHitbox g)))"

subsection \<open>The tick\<close>

text \<open>
  \<^verbatim>\<open>update(deltaTime)\<close>, in the blocks of the source. \<open>currentTime\<close> is the value of
  \<^verbatim>\<open>Date.now()\<close> read on entry; \<open>nowAt k\<close> is the value the \<open>k\<close>-th activation of the tick
  reads.
\<close>

definition spawnGates :: "int \<Rightarrow> (nat \<Rightarrow> real) \<Rightarrow> GameEngine \<Rightarrow> GameEngine" where
  "spawnGates currentTime rnd g =
     (let g1 = (if currentTime - lastObstacleSpawn g > obstacleSpawnInterval g
                then (spawnObstacle rnd g)\<lparr>lastObstacleSpawn := currentTime\<rparr> else g);
          g2 = (if currentTime - lastCoinSpawn g1 > 1500
                then (spawnCoin rnd g1)\<lparr>lastCoinSpawn := currentTime\<rparr> else g1)
      in if currentTime - lastPowerUpSpawn g2 > 15000
         then (spawnPowerUp rnd g2)\<lparr>lastPowerUpSpawn := currentTime\<rparr> else g2)"

definition advanceObstacles :: "real \<Rightarrow> GameEngine \<Rightarrow> GameEngine" where
  "advanceObstacles deltaTime g =
     g\<lparr>obstacles :=
         filter (\<lambda>ob. vy (ob_position ob) < canvas_height g + 100)
           (map (Obstacle_update deltaTime (gameSpeed g)) (obstacles g))\<rparr>"

definition advanceCoins :: "real \<Rightarrow> GameEngine \<Rightarrow> GameEngine" where
  "advanceCoins deltaTime g =
     (let magnetActive = (activePowerUps g Magnet \<noteq> None)
      in g\<lparr>coins :=
            filter (\<lambda>c. vy (co_position c) < canvas_height g + 50 \<and> \<not> co_collected c)
              (map (Coin_update deltaTime (gameSpeed g) (pl_position (player g)) magnetActive)
                 (coins g))\<rparr>)"

definition advancePowerUps :: "real \<Rightarrow> GameEngine \<Rightarrow> GameEngine" where
  "advancePowerUps deltaTime g =
     g\<lparr>powerUps :=
         filter (\<lambda>pu. vy (pu_position pu) < canvas_height g + 50 \<and> \<not> pu_collected pu)
           (map (PowerUp_update deltaTime (gameSpeed g)) (powerUps g))\<rparr>"

definition advanceParticles :: "real \<Rightarrow> GameEngine \<Rightarrow> GameEngine" where
  "advanceParticles deltaTime g =
     g\<lparr>particles := filter (\<lambda>p. life p > 0) (map (Particle_update deltaTime) (particles g))\<rparr>"

definition purgeExpired :: "int \<Rightarrow> GameEngine \<Rightarrow> GameEngine" where
  "purgeExpired currentTime g =
     g\<lparr>activePowerUps :=
         (\<lambda>type. case activePowerUps g type of
                    None \<Rightarrow> None
                  | Some endTime \<Rightarrow> if currentTime > endTime then None else Some endTime)\<rparr>"

definition updateDifficulty :: "GameEngine \<Rightarrow> GameEngine" where
  "updateDifficulty g =
     g\<lparr>gameSpeed := baseSpeed g + real_of_int (\<lfloor>score g / 500\<rfloor> * 50),
       obstacleSpawnInterval := max 800 (2000 - \<lfloor>score g / 200\<rfloor> * 100)\<rparr>"

definition addSurvivalScore :: "real \<Rightarrow> GameEngine \<Rightarrow> GameEngine" where
  "addSurvivalScore deltaTime g =
     (let g1 = g\<lparr>score := score g + deltaTime * 10\<rparr>
      in emit (ScoreChange \<lfloor>score g1\<rfloor>) g1)"

definition update ::
  "real \<Rightarrow> int \<Rightarrow> (nat \<Rightarrow> int) \<Rightarrow> (nat \<Rightarrow> real) \<Rightarrow> GameEngine \<Rightarrow> GameEngine" where
  "update deltaTime currentTime nowAt rnd g =
     (let g1 = g\<lparr>player := Player_update deltaTime (lanePositions g) (player g)\<rparr>;
          g2 = spawnGates currentTime rnd g1;
          g3 = advanceObstacles deltaTime g2;
          g4 = advanceCoins deltaTime g3;
          g5 = advancePowerUps deltaTime g4;
          g6 = advanceParticles deltaTime g5;
          g7 = purgeExpired currentTime g6;
          g8 = checkCollisions nowAt rnd g7;
          g9 = updateDifficulty g8
      in addSurvivalScore deltaTime g9)"

text \<open>
  \<^verbatim>\<open>gameLoop(currentTime)\<close>: \<open>currentTime\<close> is the frame timestamp, \<open>dateNow\<close> the wall
  clock that \<^verbatim>\<open>update\<close> reads. Rendering changes no state and is left out.
\<close>

definition gameLoop ::
  "real \<Rightarrow> int \<Rightarrow> (nat \<Rightarrow> int) \<Rightarrow> (nat \<Rightarrow> real) \<Rightarrow> GameEngine \<Rightarrow> GameEngine" where
  "gameLoop currentTime dateNow nowAt rnd g =
     (let deltaTime = min ((currentTime - lastTime g) / 1000) 0.016;
          g1 = g\<lparr>lastTime := currentTime, fpsCounter := fpsCounter g + 1,
                 fpsTime := fpsTime g + deltaTime\<rparr>;
          g2 = (if fpsTime g1 \<ge> 1
                then (emit (FpsChange (real_of_int (fpsCounter g1) / fpsTime g1)) g1)
                       \<lparr>fpsCounter := 0, fpsTime := 0\<rparr>
                else g1)
      in if state g2 = Playing then update deltaTime dateNow nowAt rnd g2 else g2)"

subsection \<open>Input handlers\<close>

definition onPlayer :: "(Player \<Rightarrow> Player) \<Rightarrow> GameEngine \<Rightarrow> GameEngine" where
  "onPlayer f g = g\<lparr>player := f (player g)\<rparr>"

definition touchstart :: "real \<Rightarrow> real \<Rightarrow> GameEngine \<Rightarrow> GameEngine" where
  "touchstart clientX clientY g = g\<lparr>touchStartX := clientX, touchStartY := clientY\<rparr>"

definition touchend :: "real \<Rightarrow> real \<Rightarrow> GameEngine \<Rightarrow> GameEngine" where
  "touchend clientX clientY g =
     (if state g = Menu \<or> state g = GameOver then startGame g
      else if state g \<noteq> Playing then g
      else
        (let deltaX = clientX - touchStartX g;
             deltaY = clientY - touchStartY g;
             threshold = 30
         in if \<bar>deltaX\<bar> > \<bar>deltaY\<bar>
            then (if deltaX > threshold then onPlayer (moveLane 1) g
                  else if deltaX < - threshold then onPlayer (moveLane (- 1)) g
                  else g)
            else (if deltaY < - threshold then emit (PlaySound ''jump'') (onPlayer jump g)
                  else if deltaY > threshold then emit (PlaySound ''slide'') (onPlayer slide g)
                  else g)))"

definition keydown :: "string \<Rightarrow> GameEngine \<Rightarrow> GameEngine" where
  "keydown code g0 =
     (let g = g0\<lparr>keys := insert code (keys g0)\<rparr>
      in if state g = Menu \<or> state g = GameOver
         then (if code = ''Enter'' \<or> code = ''Space'' then startGame g else g)
         else if state g = Playing
         then (if code = ''ArrowLeft'' then onPlayer (moveLane (- 1)) g
               else if code = ''ArrowRight'' then onPlayer (moveLane 1) g
               else if code = ''ArrowUp'' \<or> code = ''Space''
               then emit (PlaySound ''jump'') (onPlayer jump g)
               else if code = ''ArrowDown'' then emit (PlaySound ''slide'') (onPlayer slide g)
               else if code = ''Escape'' then pauseGame g
               else g)
         else if state g = Paused \<and> code = ''Escape'' then resumeGame g
         else g)"

definition keyup :: "string \<Rightarrow> GameEngine \<Rightarrow> GameEngine" where
  "keyup code g = g\<lparr>keys := keys g - {code}\<rparr>"

definition click :: "GameEngine \<Rightarrow> GameEngine" where
  "click g = (if state g = Menu \<or> state g = GameOver then startGame g else g)"

subsection \<open>Reachable engine states\<close>

text \<open>
  Everything that can act on an engine: the listeners its constructor installs (touch
  listeners on mobile, key listeners otherwise, the click listener always), a frame of
  the loop, the public methods, and a resize of the canvas by the page.
\<close>

datatype input =
    TouchStart real real
  | TouchEnd real real
  | KeyDown string
  | KeyUp string
  | Click
  | Frame real int "nat \<Rightarrow> int" "nat \<Rightarrow> real"
  | StartGame
  | PauseGame
  | ResumeGame
  | ResetGame
  | SetHighScore real
  | Resize real real

fun dispatch :: "input \<Rightarrow> GameEngine \<Rightarrow> GameEngine" where
  "dispatch (TouchStart a b) g = (if isMobile g then touchstart a b g else g)"
| "dispatch (TouchEnd a b) g = (if isMobile g then touchend a b g else g)"
| "dispatch (KeyDown code) g = (if isMobile g then g else keydown code g)"
| "dispatch (KeyUp code) g = (if isMobile g then g else keyup code g)"
| "dispatch Click g = click g"
| "dispatch (Frame t dateNow nowAt rnd) g = gameLoop t dateNow nowAt rnd g"
| "dispatch StartGame g = startGame g"
| "dispatch PauseGame g = pauseGame g"
| "dispatch ResumeGame g = resumeGame g"
| "dispatch ResetGame g = resetGame g"
| "dispatch (SetHighScore s) g = setHighScore s g"
| "dispatch (Resize w h) g = g\<lparr>canvas_width := w, canvas_height := h\<rparr>"

inductive reachable :: "GameEngine \<Rightarrow> bool" where
  constructed: "GameEngine_new cw ch width height mobile = Inr g \<Longrightarrow> reachable g"
| dispatched: "reachable g \<Longrightarrow> reachable (dispatch i g)"

fun run :: "input list \<Rightarrow> GameEngine \<Rightarrow> GameEngine" where
  "run [] g = g"
| "run (i # is) g = run is (dispatch i g)"

section \<open>Definitions for the statements and the proofs\<close>

text \<open>
  Nothing below is code of the engine: these are the names the theorems need for parts
  of a tick, for the properties they state, and for the sample states of the concrete
  evaluations.
\<close>

subsection \<open>Parts of a tick\<close>

text \<open>The particles that \<^verbatim>\<open>createParticles\<close> pushes, reading the stream from position \<open>d\<close>.\<close>

fun burst :: "(nat \<Rightarrow> real) \<Rightarrow> Vector2D \<Rightarrow> string \<Rightarrow> nat \<Rightarrow> nat \<Rightarrow> Particle list" where
  "burst rnd position color 0 d = []"
| "burst rnd position color (Suc n) d =
     Particle_new position
       (Vector2D_new (random (rnd d) (- 100) 100) (random (rnd (d + 1)) (- 100) (- 200))) color
     # burst rnd position color n (d + 2)"

text \<open>
  The state on which the collision resolver of a tick runs: \<^verbatim>\<open>update\<close> up to the call of
  \<^verbatim>\<open>checkCollisions\<close>.
\<close>

definition beforeCollisions :: "real \<Rightarrow> int \<Rightarrow> (nat \<Rightarrow> real) \<Rightarrow> GameEngine \<Rightarrow> GameEngine" where
  "beforeCollisions dt t rnd g =
     purgeExpired t (advanceParticles dt (advancePowerUps dt (advanceCoins dt (advanceObstacles dt
       (spawnGates t rnd (g\<lparr>player := Player_update dt (lanePositions g) (player g)\<rparr>))))))"

text \<open>What the coin loop and the power-up loop of the resolver do to one entity.\<close>

definition markCoin :: "Hitbox \<Rightarrow> Coin \<Rightarrow> Coin" where
  "markCoin hb c =
     (if \<not> co_collected c \<and> isColliding hb (Coin_getHitbox c) then c\<lparr>co_collected := True\<rparr> else c)"

definition markPowerUp :: "Hitbox \<Rightarrow> PowerUp \<Rightarrow> PowerUp" where
  "markPowerUp hb p =
     (if \<not> pu_collected p \<and> isColliding hb (PowerUp_getHitbox p) then p\<lparr>pu_collected := True\<rparr> else p)"

text \<open>
  What the three gates of a tick at wall-clock time \<open>t\<close> append to the lists, and the
  position in the stream of draws after the first and the second gate.
\<close>

definition spawnedObstacles :: "int \<Rightarrow> (nat \<Rightarrow> real) \<Rightarrow> GameEngine \<Rightarrow> Obstacle list" where
  "spawnedObstacles t rnd g =
     (if t - lastObstacleSpawn g > obstacleSpawnInterval g
      then [Obstacle_new (Vector2D_new (laneAt (lanePositions g) \<lfloor>rnd (draws g) * 3\<rfloor>) (- 100))
              \<lfloor>rnd (draws g) * 3\<rfloor> ([Barrier, Train, Low] ! nat \<lfloor>rnd (draws g + 1) * 3\<rfloor>)]
      else [])"

definition drawsAfterObstacle :: "int \<Rightarrow> GameEngine \<Rightarrow> nat" where
  "drawsAfterObstacle t g =
     (if t - lastObstacleSpawn g > obstacleSpawnInterval g then draws g + 2 else draws g)"

definition spawnedCoins :: "int \<Rightarrow> (nat \<Rightarrow> real) \<Rightarrow> GameEngine \<Rightarrow> Coin list" where
  "spawnedCoins t rnd g =
     (if t - lastCoinSpawn g > 1500
      then (let d = drawsAfterObstacle t g
            in map (clusterCoin (lanePositions g) \<lfloor>rnd (d + numCoinsDraws (rnd d)) * 3\<rfloor>)
                 [0..<numCoins (rnd d) (rnd (d + 1))])
      else [])"

definition drawsAfterCoin :: "int \<Rightarrow> (nat \<Rightarrow> real) \<Rightarrow> GameEngine \<Rightarrow> nat" where
  "drawsAfterCoin t rnd g =
     (let d = drawsAfterObstacle t g
      in if t - lastCoinSpawn g > 1500 then d + numCoinsDraws (rnd d) + 1 else d)"

definition spawnedPowerUps :: "int \<Rightarrow> (nat \<Rightarrow> real) \<Rightarrow> GameEngine \<Rightarrow> PowerUp list" where
  "spawnedPowerUps t rnd g =
     (if t - lastPowerUpSpawn g > 15000
      then (let d = drawsAfterCoin t rnd g
            in [PowerUp_new (Vector2D_new (laneAt (lanePositions g) \<lfloor>rnd d * 3\<rfloor>) (- 100))
                  \<lfloor>rnd d * 3\<rfloor> ([Magnet, Speed, Shield] ! nat \<lfloor>rnd (d + 1) * 3\<rfloor>)])
      else [])"

text \<open>The two halves of \<^verbatim>\<open>gameLoop\<close> before its call of \<^verbatim>\<open>update\<close>: the time step and the frame counters.\<close>

definition frameDelta :: "real \<Rightarrow> GameEngine \<Rightarrow> real" where
  "frameDelta rt g = min ((rt - lastTime g) / 1000) 0.016"

definition countFrame :: "real \<Rightarrow> GameEngine \<Rightarrow> GameEngine" where
  "countFrame rt g =
     (let g1 = g\<lparr>lastTime := rt, fpsCounter := fpsCounter g + 1,
                 fpsTime := fpsTime g + frameDelta rt g\<rparr>
      in if fpsTime g1 \<ge> 1
         then (emit (FpsChange (real_of_int (fpsCounter g1) / fpsTime g1)) g1)
                \<lparr>fpsCounter := 0, fpsTime := 0\<rparr>
         else g1)"

subsection \<open>Properties of states and inputs\<close>

text \<open>The invariant of the reachable engine states.\<close>

definition engine_inv :: "GameEngine \<Rightarrow> bool" where
  "engine_inv g \<longleftrightarrow>
     targetLane (player g) \<in> {0, 1, 2} \<and> currentLane (player g) \<in> {0, 1, 2} \<and>
     \<not> (isJumping (player g) \<and> isSliding (player g)) \<and>
     baseSpeed g = 300 \<and> length (lanePositions g) = 3 \<and> lives g \<le> 3 \<and>
     (state g = Playing \<or> state g = Paused \<longrightarrow> 1 \<le> lives g)"



fun isFrame :: "input \<Rightarrow> bool" where
  "isFrame (Frame rt t nowAt rnd) = True"
| "isFrame i = False"


subsection \<open>Quantities the specification speaks of\<close>

text \<open>
  The remaining time of a spawn gate and of an effect at wall-clock time \<open>now\<close>: the gate
  of \<^verbatim>\<open>update\<close> fires when its remaining time is negative, and the purge drops an effect
  whose remaining time is negative.
\<close>

definition obstacleGateRemaining :: "GameEngine \<Rightarrow> int \<Rightarrow> int" where
  "obstacleGateRemaining g now = lastObstacleSpawn g + obstacleSpawnInterval g - now"

definition coinGateRemaining :: "GameEngine \<Rightarrow> int \<Rightarrow> int" where
  "coinGateRemaining g now = lastCoinSpawn g + 1500 - now"

definition powerUpGateRemaining :: "GameEngine \<Rightarrow> int \<Rightarrow> int" where
  "powerUpGateRemaining g now = lastPowerUpSpawn g + 15000 - now"

definition effectRemaining :: "GameEngine \<Rightarrow> PowerUpType \<Rightarrow> int \<Rightarrow> int option" where
  "effectRemaining g kind now = map_option (\<lambda>endTime. endTime - now) (activePowerUps g kind)"


subsection \<open>Sample states\<close>

text \<open>
  A session on an 800 x 600 canvas right after \<^verbatim>\<open>startGame\<close>; two obstacles standing on
  the player and a coin in front of the player; and the session after its first frame,
  at wall-clock time 1000000, with and without a Magnet activated at 1000050.
\<close>

definition sampleEngine :: GameEngine where
  "sampleEngine = startGame (GameEngine_init 800 600 800 600 False)"




definition runningSample :: GameEngine where
  "runningSample = gameLoop 16 1000000 (\<lambda>k. 1000000) (\<lambda>n. 1 / 2) sampleEngine"

definition magnetSample :: GameEngine where
  "magnetSample = activatePowerUp 1000050 Magnet runningSample"

section \<open>Frame lemmas\<close>

lemma createParticles_eq:
  "createParticles rnd pos col n g =
     g\<lparr>particles := particles g @ burst rnd pos col n (draws g), draws := draws g + 2 * n\<rparr>"
  by (induction n arbitrary: g) simp_all

lemma lanePositions_length:
  "GameEngine_new cw ch width height mobile = Inr g \<Longrightarrow> length (lanePositions g) = 3"
  by (auto simp: GameEngine_new_def GameEngine_init_def Let_def)

lemma clamp_lane: "clamp (v::int) 0 2 \<in> {0, 1, 2}"
  by (auto simp: clamp_def max_def min_def)

lemma hitFirst_cases:
  "hitFirst rnd hb obs g =
     (if \<exists>ob \<in> set obs. isColliding hb (Obstacle_getHitbox ob) then handlePlayerHit rnd g else g)"
  by (induction obs) auto

lemma handlePlayerHit_eq:
  "handlePlayerHit rnd g =
     (if activePowerUps g Shield \<noteq> None then g
      else g\<lparr>lives := lives g - 1,
             state := (if lives g - 1 \<le> 0 then GameOver else state g),
             events := events g @ PlaySound ''hit'' #
                (if lives g - 1 \<le> 0 then [StateChange GameOver, PlaySound ''gameover''] else []),
             particles := particles g @ burst rnd (pl_position (player g)) ''#FF4444'' 10 (draws g),
             draws := draws g + 20,
             player := (player g)\<lparr>invulnerable := True, invulnerableTime := 2000\<rparr>\<rparr>)"
  by (simp add: handlePlayerHit_def Let_def createParticles_eq emit_def setState_def)

lemma collectCoins_frame:
  "(snd (collectCoins rnd hb cs g))\<lparr>score := s, events := e, particles := p, draws := d\<rparr>
     = g\<lparr>score := s, events := e, particles := p, draws := d\<rparr>"
  by (induction cs arbitrary: g) (simp_all add: createParticles_eq emit_def)

lemma collectPowerUps_frame:
  "(snd (collectPowerUps nowAt rnd hb ps k g))
      \<lparr>activePowerUps := a, player := pl, events := e, particles := p, draws := d\<rparr>
     = g\<lparr>activePowerUps := a, player := pl, events := e, particles := p, draws := d\<rparr>"
  by (induction ps arbitrary: g k) (simp_all add: createParticles_eq emit_def activatePowerUp_def Let_def)

lemma collectPowerUps_player:
  "(player (snd (collectPowerUps nowAt rnd hb ps k g)))\<lparr>invulnerable := b, invulnerableTime := t\<rparr>
     = (player g)\<lparr>invulnerable := b, invulnerableTime := t\<rparr>"
  by (induction ps arbitrary: g k) (simp_all add: createParticles_eq emit_def activatePowerUp_def Let_def)

lemma collectCoins_keeps:
  assumes "\<And>h s e p d. f (h\<lparr>score := s, events := e, particles := p, draws := d\<rparr>) = f h"
  shows "f (snd (collectCoins rnd hb cs g)) = f g"
  by (metis assms collectCoins_frame)

lemma collectPowerUps_keeps:
  assumes "\<And>h a pl e p d.
     f (h\<lparr>activePowerUps := a, player := pl, events := e, particles := p, draws := d\<rparr>) = f h"
  shows "f (snd (collectPowerUps nowAt rnd hb ps k g)) = f g"
  by (metis assms collectPowerUps_frame)

lemma checkCoins_frame:
  "(checkCoins rnd hb g)\<lparr>coins := c, score := s, events := e, particles := p, draws := d\<rparr>
     = g\<lparr>coins := c, score := s, events := e, particles := p, draws := d\<rparr>"
proof -
  let ?X = "snd (collectCoins rnd hb (coins g) g)"
  have "(checkCoins rnd hb g)\<lparr>coins := c, score := s, events := e, particles := p, draws := d\<rparr>
      = ?X\<lparr>score := s, events := e, particles := p, draws := d\<rparr>\<lparr>coins := c\<rparr>"
    by (simp add: checkCoins_def case_prod_beta)
  also have "\<dots> = g\<lparr>score := s, events := e, particles := p, draws := d\<rparr>\<lparr>coins := c\<rparr>"
    by (simp only: collectCoins_frame)
  also have "\<dots> = g\<lparr>coins := c, score := s, events := e, particles := p, draws := d\<rparr>"
    by simp
  finally show ?thesis .
qed

lemma checkPowerUps_frame:
  "(checkPowerUps nowAt rnd hb g)
      \<lparr>powerUps := pu, activePowerUps := a, player := pl, events := e, particles := p, draws := d\<rparr>
     = g\<lparr>powerUps := pu, activePowerUps := a, player := pl, events := e, particles := p, draws := d\<rparr>"
proof -
  let ?X = "snd (collectPowerUps nowAt rnd hb (powerUps g) 0 g)"
  have "(checkPowerUps nowAt rnd hb g)
      \<lparr>powerUps := pu, activePowerUps := a, player := pl, events := e, particles := p, draws := d\<rparr>
      = ?X\<lparr>activePowerUps := a, player := pl, events := e, particles := p, draws := d\<rparr>\<lparr>powerUps := pu\<rparr>"
    by (simp add: checkPowerUps_def case_prod_beta)
  also have "\<dots> = g\<lparr>activePowerUps := a, player := pl, events := e, particles := p, draws := d\<rparr>\<lparr>powerUps := pu\<rparr>"
    by (simp only: collectPowerUps_frame)
  also have "\<dots> = g\<lparr>powerUps := pu, activePowerUps := a, player := pl, events := e, particles := p, draws := d\<rparr>"
    by simp
  finally show ?thesis .
qed

lemma checkObstacles_frame:
  "(checkObstacles rnd hb g)
      \<lparr>lives := l, state := st, player := pl, events := e, particles := p, draws := d\<rparr>
     = g\<lparr>lives := l, state := st, player := pl, events := e, particles := p, draws := d\<rparr>"
  by (simp add: checkObstacles_def hitFirst_cases handlePlayerHit_eq)

lemma checkCollisions_frame:
  "(checkCollisions nowAt rnd g)
      \<lparr>coins := c, powerUps := pu, score := s, activePowerUps := a, lives := l, state := st,
       player := pl, events := e, particles := p, draws := d\<rparr>
     = g\<lparr>coins := c, powerUps := pu, score := s, activePowerUps := a, lives := l, state := st,
         player := pl, events := e, particles := p, draws := d\<rparr>"
proof -
  let ?hb = "Player_getHitbox (player g)"
  let ?g1 = "checkCoins rnd ?hb g"
  let ?g2 = "checkPowerUps nowAt rnd ?hb ?g1"
  let ?g3 = "checkObstacles rnd ?hb ?g2"
  have "(checkCollisions nowAt rnd g)
      \<lparr>coins := c, powerUps := pu, score := s, activePowerUps := a, lives := l, state := st,
       player := pl, events := e, particles := p, draws := d\<rparr>
      = ?g3\<lparr>lives := l, state := st, player := pl, events := e, particles := p, draws := d\<rparr>
          \<lparr>coins := c, powerUps := pu, score := s, activePowerUps := a\<rparr>"
    by (simp add: checkCollisions_def Let_def)
  also have "\<dots> = ?g2\<lparr>lives := l, state := st, player := pl, events := e, particles := p, draws := d\<rparr>
          \<lparr>coins := c, powerUps := pu, score := s, activePowerUps := a\<rparr>"
    by (simp only: checkObstacles_frame)
  also have "\<dots> = ?g2\<lparr>powerUps := pu, activePowerUps := a, player := pl, events := e, particles := p, draws := d\<rparr>
          \<lparr>coins := c, score := s, lives := l, state := st\<rparr>"
    by simp
  also have "\<dots> = ?g1\<lparr>powerUps := pu, activePowerUps := a, player := pl, events := e, particles := p, draws := d\<rparr>
          \<lparr>coins := c, score := s, lives := l, state := st\<rparr>"
    by (simp only: checkPowerUps_frame)
  also have "\<dots> = ?g1\<lparr>coins := c, score := s, events := e, particles := p, draws := d\<rparr>
          \<lparr>powerUps := pu, activePowerUps := a, player := pl, lives := l, state := st\<rparr>"
    by simp
  also have "\<dots> = g\<lparr>coins := c, score := s, events := e, particles := p, draws := d\<rparr>
          \<lparr>powerUps := pu, activePowerUps := a, player := pl, lives := l, state := st\<rparr>"
    by (simp only: checkCoins_frame)
  also have "\<dots> = g\<lparr>coins := c, powerUps := pu, score := s, activePowerUps := a, lives := l, state := st,
         player := pl, events := e, particles := p, draws := d\<rparr>"
    by simp
  finally show ?thesis .
qed

lemma checkCollisions_keeps:
  assumes "\<And>h c pu s a l st pl e p d.
     f (h\<lparr>coins := c, powerUps := pu, score := s, activePowerUps := a, lives := l, state := st,
          player := pl, events := e, particles := p, draws := d\<rparr>) = f h"
  shows "f (checkCollisions nowAt rnd g) = f g"
  by (metis assms checkCollisions_frame)

lemma checkCoins_player: "player (checkCoins rnd hb g) = player g"
  using arg_cong [OF checkCoins_frame, of player] by simp

lemma checkCoins_lives: "lives (checkCoins rnd hb g) = lives g"
  using arg_cong [OF checkCoins_frame, of lives] by simp

lemma checkCoins_state: "state (checkCoins rnd hb g) = state g"
  using arg_cong [OF checkCoins_frame, of state] by simp

lemma checkPowerUps_lives: "lives (checkPowerUps nowAt rnd hb g) = lives g"
  using arg_cong [OF checkPowerUps_frame, of lives] by simp

lemma checkPowerUps_state: "state (checkPowerUps nowAt rnd hb g) = state g"
  using arg_cong [OF checkPowerUps_frame, of state] by simp

lemma checkPowerUps_player:
  "(player (checkPowerUps nowAt rnd hb g))\<lparr>invulnerable := b, invulnerableTime := t\<rparr>
     = (player g)\<lparr>invulnerable := b, invulnerableTime := t\<rparr>"
  by (simp add: checkPowerUps_def case_prod_beta collectPowerUps_player)

lemma checkObstacles_player:
  "(player (checkObstacles rnd hb g))\<lparr>invulnerable := b, invulnerableTime := t\<rparr>
     = (player g)\<lparr>invulnerable := b, invulnerableTime := t\<rparr>"
  by (simp add: checkObstacles_def hitFirst_cases handlePlayerHit_eq)

lemma checkCollisions_player:
  "(player (checkCollisions nowAt rnd g))\<lparr>invulnerable := b, invulnerableTime := t\<rparr>
     = (player g)\<lparr>invulnerable := b, invulnerableTime := t\<rparr>"
  by (simp add: checkCollisions_def Let_def checkObstacles_player checkPowerUps_player
      checkCoins_player)

lemma Player_update_lanes:
  "currentLane p \<in> {0, 1, 2} \<Longrightarrow>
   targetLane (Player_update dt ls p) \<in> {0, 1, 2} \<and> currentLane (Player_update dt ls p) \<in> {0, 1, 2}"
  using clamp_lane [of "targetLane p"]
  by (simp add: Player_update_def steer_def jumpPhysics_def slideMechanics_def
      invulnerabilityTimer_def Let_def)

lemma Player_update_flags:
  "(isJumping (Player_update dt ls p) \<longrightarrow> isJumping p) \<and>
   (isSliding (Player_update dt ls p) \<longrightarrow> isSliding p)"
  by (simp add: Player_update_def steer_def jumpPhysics_def slideMechanics_def
      invulnerabilityTimer_def Let_def)

lemma spawnGates_frame:
  "(spawnGates t rnd g)\<lparr>obstacles := ob, coins := c, powerUps := pu, draws := d,
       lastObstacleSpawn := lo, lastCoinSpawn := lc, lastPowerUpSpawn := lp\<rparr>
   = g\<lparr>obstacles := ob, coins := c, powerUps := pu, draws := d,
       lastObstacleSpawn := lo, lastCoinSpawn := lc, lastPowerUpSpawn := lp\<rparr>"
  by (simp add: spawnGates_def spawnObstacle_def spawnCoin_def spawnPowerUp_def Let_def)

lemma spawnGates_keeps:
  assumes "\<And>h ob c pu d lo lc lp.
     f (h\<lparr>obstacles := ob, coins := c, powerUps := pu, draws := d,
          lastObstacleSpawn := lo, lastCoinSpawn := lc, lastPowerUpSpawn := lp\<rparr>) = f h"
  shows "f (spawnGates t rnd g) = f g"
  by (metis assms spawnGates_frame)

lemma update_eq:
  "update dt t nowAt rnd g =
     addSurvivalScore dt (updateDifficulty (checkCollisions nowAt rnd (beforeCollisions dt t rnd g)))"
  by (simp add: update_def beforeCollisions_def Let_def)

lemma beforeCollisions_frame:
  "(beforeCollisions dt t rnd g)\<lparr>player := pl, obstacles := ob, coins := c, powerUps := pu,
       particles := pa, activePowerUps := a, draws := d,
       lastObstacleSpawn := lo, lastCoinSpawn := lc, lastPowerUpSpawn := lp\<rparr>
   = g\<lparr>player := pl, obstacles := ob, coins := c, powerUps := pu,
       particles := pa, activePowerUps := a, draws := d,
       lastObstacleSpawn := lo, lastCoinSpawn := lc, lastPowerUpSpawn := lp\<rparr>"
proof -
  let ?g1 = "g\<lparr>player := Player_update dt (lanePositions g) (player g)\<rparr>"
  have "(beforeCollisions dt t rnd g)\<lparr>player := pl, obstacles := ob, coins := c, powerUps := pu,
       particles := pa, activePowerUps := a, draws := d,
       lastObstacleSpawn := lo, lastCoinSpawn := lc, lastPowerUpSpawn := lp\<rparr>
     = (spawnGates t rnd ?g1)\<lparr>obstacles := ob, coins := c, powerUps := pu, draws := d,
       lastObstacleSpawn := lo, lastCoinSpawn := lc, lastPowerUpSpawn := lp\<rparr>
       \<lparr>player := pl, particles := pa, activePowerUps := a\<rparr>"
    by (simp add: beforeCollisions_def purgeExpired_def advanceParticles_def advancePowerUps_def
        advanceCoins_def advanceObstacles_def Let_def)
  also have "\<dots> = ?g1\<lparr>obstacles := ob, coins := c, powerUps := pu, draws := d,
       lastObstacleSpawn := lo, lastCoinSpawn := lc, lastPowerUpSpawn := lp\<rparr>
       \<lparr>player := pl, particles := pa, activePowerUps := a\<rparr>"
    by (simp only: spawnGates_frame)
  also have "\<dots> = g\<lparr>player := pl, obstacles := ob, coins := c, powerUps := pu,
       particles := pa, activePowerUps := a, draws := d,
       lastObstacleSpawn := lo, lastCoinSpawn := lc, lastPowerUpSpawn := lp\<rparr>"
    by simp
  finally show ?thesis .
qed

lemma beforeCollisions_keeps:
  assumes "\<And>h pl ob c pu pa a d lo lc lp.
     f (h\<lparr>player := pl, obstacles := ob, coins := c, powerUps := pu,
       particles := pa, activePowerUps := a, draws := d,
       lastObstacleSpawn := lo, lastCoinSpawn := lc, lastPowerUpSpawn := lp\<rparr>) = f h"
  shows "f (beforeCollisions dt t rnd g) = f g"
  by (metis assms beforeCollisions_frame)

lemma beforeCollisions_player:
  "player (beforeCollisions dt t rnd g) = Player_update dt (lanePositions g) (player g)"
proof -
  have "player (spawnGates t rnd (g\<lparr>player := Player_update dt (lanePositions g) (player g)\<rparr>))
      = player (g\<lparr>player := Player_update dt (lanePositions g) (player g)\<rparr>)"
    by (rule spawnGates_keeps) simp
  then show ?thesis
    by (simp add: beforeCollisions_def purgeExpired_def advanceParticles_def advancePowerUps_def
        advanceCoins_def advanceObstacles_def Let_def)
qed

lemma update_player:
  "(player (update dt t nowAt rnd g))\<lparr>invulnerable := b, invulnerableTime := x\<rparr>
     = (Player_update dt (lanePositions g) (player g))\<lparr>invulnerable := b, invulnerableTime := x\<rparr>"
  by (simp add: update_eq addSurvivalScore_def emit_def updateDifficulty_def Let_def
      checkCollisions_player beforeCollisions_player)

lemma update_pose:
  "targetLane (player (update dt t nowAt rnd g)) = targetLane (Player_update dt (lanePositions g) (player g))"
  "currentLane (player (update dt t nowAt rnd g)) = currentLane (Player_update dt (lanePositions g) (player g))"
  "isJumping (player (update dt t nowAt rnd g)) = isJumping (Player_update dt (lanePositions g) (player g))"
  "isSliding (player (update dt t nowAt rnd g)) = isSliding (Player_update dt (lanePositions g) (player g))"
proof -
  let ?p = "player (update dt t nowAt rnd g)"
  let ?q = "Player_update dt (lanePositions g) (player g)"
  have e: "?p\<lparr>invulnerable := True, invulnerableTime := 0\<rparr> = ?q\<lparr>invulnerable := True, invulnerableTime := 0\<rparr>"
    by (rule update_player)
  have "targetLane (?p\<lparr>invulnerable := True, invulnerableTime := 0\<rparr>) = targetLane (?q\<lparr>invulnerable := True, invulnerableTime := 0\<rparr>)"
    by (simp only: e)
  then show "targetLane ?p = targetLane ?q" by simp
  have "currentLane (?p\<lparr>invulnerable := True, invulnerableTime := 0\<rparr>) = currentLane (?q\<lparr>invulnerable := True, invulnerableTime := 0\<rparr>)"
    by (simp only: e)
  then show "currentLane ?p = currentLane ?q" by simp
  have "isJumping (?p\<lparr>invulnerable := True, invulnerableTime := 0\<rparr>) = isJumping (?q\<lparr>invulnerable := True, invulnerableTime := 0\<rparr>)"
    by (simp only: e)
  then show "isJumping ?p = isJumping ?q" by simp
  have "isSliding (?p\<lparr>invulnerable := True, invulnerableTime := 0\<rparr>) = isSliding (?q\<lparr>invulnerable := True, invulnerableTime := 0\<rparr>)"
    by (simp only: e)
  then show "isSliding ?p = isSliding ?q" by simp
qed

lemma checkObstacles_lives_state:
  "(lives (checkObstacles rnd hb g) = lives g \<and> state (checkObstacles rnd hb g) = state g) \<or>
   (lives (checkObstacles rnd hb g) = lives g - 1 \<and>
    state (checkObstacles rnd hb g) = (if lives g - 1 \<le> 0 then GameOver else state g))"
  by (simp add: checkObstacles_def hitFirst_cases handlePlayerHit_eq)

lemma checkCollisions_lives_state:
  "(lives (checkCollisions nowAt rnd g) = lives g \<and> state (checkCollisions nowAt rnd g) = state g) \<or>
   (lives (checkCollisions nowAt rnd g) = lives g - 1 \<and>
    state (checkCollisions nowAt rnd g) = (if lives g - 1 \<le> 0 then GameOver else state g))"
  using checkObstacles_lives_state [of rnd "Player_getHitbox (player g)"
      "checkPowerUps nowAt rnd (Player_getHitbox (player g)) (checkCoins rnd (Player_getHitbox (player g)) g)"]
  by (auto simp add: checkCollisions_def Let_def checkPowerUps_lives checkPowerUps_state
      checkCoins_lives checkCoins_state split: if_splits)

lemma update_lives_state:
  "(lives (update dt t nowAt rnd g) = lives g \<and> state (update dt t nowAt rnd g) = state g) \<or>
   (lives (update dt t nowAt rnd g) = lives g - 1 \<and>
    state (update dt t nowAt rnd g) = (if lives g - 1 \<le> 0 then GameOver else state g))"
proof -
  have l: "lives (beforeCollisions dt t rnd g) = lives g"
    by (rule beforeCollisions_keeps) simp
  have s: "state (beforeCollisions dt t rnd g) = state g"
    by (rule beforeCollisions_keeps) simp
  show ?thesis
    using checkCollisions_lives_state [of nowAt rnd "beforeCollisions dt t rnd g"]
    by (auto simp add: update_eq addSurvivalScore_def emit_def updateDifficulty_def Let_def l s
        split: if_splits)
qed

lemma update_constants:
  "baseSpeed (update dt t nowAt rnd g) = baseSpeed g"
  "lanePositions (update dt t nowAt rnd g) = lanePositions g"
  "canvas_height (update dt t nowAt rnd g) = canvas_height g"
  "groundY (update dt t nowAt rnd g) = groundY g"
  "isMobile (update dt t nowAt rnd g) = isMobile g"
proof -
  have "baseSpeed (checkCollisions nowAt rnd (beforeCollisions dt t rnd g)) = baseSpeed (beforeCollisions dt t rnd g)"
    by (rule checkCollisions_keeps) simp
  moreover have "baseSpeed (beforeCollisions dt t rnd g) = baseSpeed g"
    by (rule beforeCollisions_keeps) simp
  ultimately show "baseSpeed (update dt t nowAt rnd g) = baseSpeed g"
    by (simp add: update_eq addSurvivalScore_def emit_def updateDifficulty_def Let_def)
  have "lanePositions (checkCollisions nowAt rnd (beforeCollisions dt t rnd g)) = lanePositions (beforeCollisions dt t rnd g)"
    by (rule checkCollisions_keeps) simp
  moreover have "lanePositions (beforeCollisions dt t rnd g) = lanePositions g"
    by (rule beforeCollisions_keeps) simp
  ultimately show "lanePositions (update dt t nowAt rnd g) = lanePositions g"
    by (simp add: update_eq addSurvivalScore_def emit_def updateDifficulty_def Let_def)
  have "canvas_height (checkCollisions nowAt rnd (beforeCollisions dt t rnd g)) = canvas_height (beforeCollisions dt t rnd g)"
    by (rule checkCollisions_keeps) simp
  moreover have "canvas_height (beforeCollisions dt t rnd g) = canvas_height g"
    by (rule beforeCollisions_keeps) simp
  ultimately show "canvas_height (update dt t nowAt rnd g) = canvas_height g"
    by (simp add: update_eq addSurvivalScore_def emit_def updateDifficulty_def Let_def)
  have "groundY (checkCollisions nowAt rnd (beforeCollisions dt t rnd g)) = groundY (beforeCollisions dt t rnd g)"
    by (rule checkCollisions_keeps) simp
  moreover have "groundY (beforeCollisions dt t rnd g) = groundY g"
    by (rule beforeCollisions_keeps) simp
  ultimately show "groundY (update dt t nowAt rnd g) = groundY g"
    by (simp add: update_eq addSurvivalScore_def emit_def updateDifficulty_def Let_def)
  have "isMobile (checkCollisions nowAt rnd (beforeCollisions dt t rnd g)) = isMobile (beforeCollisions dt t rnd g)"
    by (rule checkCollisions_keeps) simp
  moreover have "isMobile (beforeCollisions dt t rnd g) = isMobile g"
    by (rule beforeCollisions_keeps) simp
  ultimately show "isMobile (update dt t nowAt rnd g) = isMobile g"
    by (simp add: update_eq addSurvivalScore_def emit_def updateDifficulty_def Let_def)
qed

section \<open>The invariant of the reachable states\<close>

lemma update_inv:
  assumes "engine_inv g" and "state g = Playing"
  shows "engine_inv (update dt t nowAt rnd g)"
proof -
  let ?p = "Player_update dt (lanePositions g) (player g)"
  from assms have c: "currentLane (player g) \<in> {0, 1, 2}"
    and x: "\<not> (isJumping (player g) \<and> isSliding (player g))"
    and b: "baseSpeed g = 300" and n: "length (lanePositions g) = 3"
    and l: "lives g \<le> 3" "1 \<le> lives g"
    by (simp_all add: engine_inv_def)
  have lanes: "targetLane ?p \<in> {0, 1, 2} \<and> currentLane ?p \<in> {0, 1, 2}"
    using c by (rule Player_update_lanes)
  have flags: "\<not> (isJumping ?p \<and> isSliding ?p)"
    using x Player_update_flags [of dt "lanePositions g" "player g"] by blast
  show ?thesis
    using lanes flags b n l assms(2) update_lives_state [of dt t nowAt rnd g]
    by (auto simp add: engine_inv_def update_pose update_constants split: if_splits)
qed

lemma gameLoop_inv: "engine_inv g \<Longrightarrow> engine_inv (gameLoop rt t nowAt rnd g)"
proof -
  assume i: "engine_inv g"
  let ?dt = "min ((rt - lastTime g) / 1000) 0.016"
  let ?g1 = "g\<lparr>lastTime := rt, fpsCounter := fpsCounter g + 1, fpsTime := fpsTime g + ?dt\<rparr>"
  let ?g2 = "(if fpsTime ?g1 \<ge> 1
                then (emit (FpsChange (real_of_int (fpsCounter ?g1) / fpsTime ?g1)) ?g1)
                       \<lparr>fpsCounter := 0, fpsTime := 0\<rparr>
                else ?g1)"
  have i2: "engine_inv ?g2" using i by (simp add: engine_inv_def emit_def)
  have "gameLoop rt t nowAt rnd g = (if state ?g2 = Playing then update ?dt t nowAt rnd ?g2 else ?g2)"
    by (simp add: gameLoop_def Let_def)
  then show ?thesis using i2 update_inv [of ?g2 ?dt t nowAt rnd] by presburger
qed

lemma startGame_inv: "engine_inv g \<Longrightarrow> engine_inv (startGame g)"
  by (simp add: engine_inv_def startGame_def setState_def resetGame_def emit_def Player_new_def)

lemma resetGame_inv: "engine_inv g \<Longrightarrow> engine_inv (resetGame g)"
  by (simp add: engine_inv_def resetGame_def emit_def Player_new_def)

lemma pauseGame_inv: "engine_inv g \<Longrightarrow> engine_inv (pauseGame g)"
  by (simp add: engine_inv_def pauseGame_def setState_def emit_def)

lemma resumeGame_inv: "engine_inv g \<Longrightarrow> engine_inv (resumeGame g)"
  by (simp add: engine_inv_def resumeGame_def setState_def emit_def)

lemma moveLane_inv: "engine_inv g \<Longrightarrow> engine_inv (onPlayer (moveLane d) g)"
  using clamp_lane [of "targetLane (player g) + d"]
  by (simp add: engine_inv_def onPlayer_def moveLane_def)

lemma jump_inv: "engine_inv g \<Longrightarrow> engine_inv (emit e (onPlayer jump g))"
  by (simp add: engine_inv_def onPlayer_def jump_def emit_def)

lemma slide_inv: "engine_inv g \<Longrightarrow> engine_inv (emit e (onPlayer slide g))"
  by (simp add: engine_inv_def onPlayer_def slide_def emit_def)

lemma keys_inv: "engine_inv (g\<lparr>keys := k\<rparr>) = engine_inv g"
  by (simp add: engine_inv_def)

lemma touchend_inv: "engine_inv g \<Longrightarrow> engine_inv (touchend a b g)"
  by (simp add: touchend_def Let_def startGame_inv moveLane_inv jump_inv slide_inv)

lemma keydown_inv: "engine_inv g \<Longrightarrow> engine_inv (keydown code g)"
  by (simp add: keydown_def Let_def startGame_inv moveLane_inv jump_inv slide_inv
      pauseGame_inv resumeGame_inv keys_inv)

lemma dispatch_inv: "engine_inv g \<Longrightarrow> engine_inv (dispatch i g)"
proof (cases i)
  case (TouchStart a b)
  assume "engine_inv g"
  then show ?thesis using TouchStart by (simp add: engine_inv_def touchstart_def)
next
  case (TouchEnd a b)
  assume "engine_inv g"
  then show ?thesis using TouchEnd by (simp add: touchend_inv)
next
  case (KeyDown code)
  assume "engine_inv g"
  then show ?thesis using KeyDown by (simp add: keydown_inv)
next
  case (KeyUp code)
  assume "engine_inv g"
  then show ?thesis using KeyUp by (simp add: keyup_def keys_inv)
next
  case Click
  assume "engine_inv g"
  then show ?thesis using Click by (simp add: click_def startGame_inv)
next
  case (Frame rt t nowAt rnd)
  assume "engine_inv g"
  then show ?thesis using Frame by (simp add: gameLoop_inv)
next
  case StartGame
  assume "engine_inv g"
  then show ?thesis using StartGame by (simp add: startGame_inv)
next
  case PauseGame
  assume "engine_inv g"
  then show ?thesis using PauseGame by (simp add: pauseGame_inv)
next
  case ResumeGame
  assume "engine_inv g"
  then show ?thesis using ResumeGame by (simp add: resumeGame_inv)
next
  case ResetGame
  assume "engine_inv g"
  then show ?thesis using ResetGame by (simp add: resetGame_inv)
next
  case (SetHighScore s)
  assume "engine_inv g"
  then show ?thesis using SetHighScore by (simp add: engine_inv_def setHighScore_def)
next
  case (Resize w h)
  assume "engine_inv g"
  then show ?thesis using Resize by (simp add: engine_inv_def)
qed

lemma init_inv: "engine_inv (GameEngine_init cw ch width height mobile)"
  by (simp add: engine_inv_def GameEngine_init_def Player_new_def Let_def)

lemma reachable_inv: "reachable g \<Longrightarrow> engine_inv g"
proof (induction rule: reachable.induct)
  case (constructed cw ch width height mobile g)
  then show ?case using init_inv by (auto simp add: GameEngine_new_def)
next
  case (dispatched g i)
  then show ?case by (simp add: dispatch_inv)
qed

lemma reachable_run: "reachable g \<Longrightarrow> reachable (run is g)"
  by (induction "is" arbitrary: g) (simp_all add: reachable.dispatched)

section \<open>The obstacle phase and the sample session\<close>

lemma checkObstacles_eq:
  "checkObstacles rnd hb g =
     (if \<not> invulnerable (player g) \<and> activePowerUps g Shield = None \<and>
         (\<exists>ob \<in> set (obstacles g). isColliding hb (Obstacle_getHitbox ob))
      then g\<lparr>lives := lives g - 1,
             state := (if lives g - 1 \<le> 0 then GameOver else state g),
             events := events g @ PlaySound ''hit'' #
                (if lives g - 1 \<le> 0 then [StateChange GameOver, PlaySound ''gameover''] else []),
             particles := particles g @ burst rnd (pl_position (player g)) ''#FF4444'' 10 (draws g),
             draws := draws g + 20,
             player := (player g)\<lparr>invulnerable := True, invulnerableTime := 2000\<rparr>\<rparr>
      else g)"
  by (simp add: checkObstacles_def hitFirst_cases handlePlayerHit_eq)

lemma sampleEngine_fields:
  "state sampleEngine = Playing" "lives sampleEngine = 3" "obstacles sampleEngine = []"
  "activePowerUps sampleEngine = Map.empty" "\<not> invulnerable (player sampleEngine)"
  "events sampleEngine = [ScoreChange 0, StateChange Playing]"
  "Player_getHitbox (player sampleEngine) = \<lparr>hb_x = 380, hb_y = 420, hb_width = 40, hb_height = 60\<rparr>"
  by (simp_all add: sampleEngine_def startGame_def resetGame_def setState_def emit_def
      GameEngine_init_def Player_new_def Player_getHitbox_def Vector2D_new_def laneAt_def Let_def)


lemma sampleEngine_reachable: "reachable sampleEngine"
proof -
  have "reachable (dispatch StartGame (GameEngine_init 800 600 800 600 False))"
    by (rule reachable.dispatched, rule reachable.constructed [of 800 600 800 600 False])
       (simp add: GameEngine_new_def)
  then show ?thesis by (simp add: sampleEngine_def)
qed

lemma collectCoins_fst: "fst (collectCoins rnd hb cs g) = map (markCoin hb) cs"
  by (induction cs arbitrary: g) (simp_all add: markCoin_def)

lemma collectPowerUps_fst: "fst (collectPowerUps nowAt rnd hb ps k g) = map (markPowerUp hb) ps"
  by (induction ps arbitrary: g k) (simp_all add: markPowerUp_def)

lemma collectCoins_score:
  "score (snd (collectCoins rnd hb cs g)) =
     score g + 10 * real (length (filter (\<lambda>c. \<not> co_collected c \<and> isColliding hb (Coin_getHitbox c)) cs))"
  by (induction cs arbitrary: g) (simp_all add: createParticles_eq emit_def)

lemma checkCoins_coins: "coins (checkCoins rnd hb g) = map (markCoin hb) (coins g)"
  using collectCoins_fst [of rnd hb "coins g" g] by (simp add: checkCoins_def case_prod_beta)

lemma checkPowerUps_powerUps:
  "powerUps (checkPowerUps nowAt rnd hb g) = map (markPowerUp hb) (powerUps g)"
  using collectPowerUps_fst [of nowAt rnd hb "powerUps g" 0 g]
  by (simp add: checkPowerUps_def case_prod_beta)

lemma checkCoins_score:
  "score (checkCoins rnd hb g) =
     score g + 10 * real (length (filter (\<lambda>c. \<not> co_collected c \<and> isColliding hb (Coin_getHitbox c)) (coins g)))"
  by (simp add: checkCoins_def case_prod_beta collectCoins_score)

lemma checkPowerUps_coins: "coins (checkPowerUps nowAt rnd hb g) = coins g"
proof -
  have "coins ((checkPowerUps nowAt rnd hb g)
      \<lparr>powerUps := [], activePowerUps := Map.empty, player := player g, events := [], particles := [], draws := 0\<rparr>)
      = coins (g\<lparr>powerUps := [], activePowerUps := Map.empty, player := player g, events := [], particles := [], draws := 0\<rparr>)"
    by (simp only: checkPowerUps_frame)
  then show ?thesis by simp
qed

lemma checkPowerUps_score: "score (checkPowerUps nowAt rnd hb g) = score g"
proof -
  have "score ((checkPowerUps nowAt rnd hb g)
      \<lparr>powerUps := [], activePowerUps := Map.empty, player := player g, events := [], particles := [], draws := 0\<rparr>)
      = score (g\<lparr>powerUps := [], activePowerUps := Map.empty, player := player g, events := [], particles := [], draws := 0\<rparr>)"
    by (simp only: checkPowerUps_frame)
  then show ?thesis by simp
qed

lemma checkCoins_powerUps: "powerUps (checkCoins rnd hb g) = powerUps g"
proof -
  have "powerUps ((checkCoins rnd hb g)\<lparr>coins := [], score := 0, events := [], particles := [], draws := 0\<rparr>)
      = powerUps (g\<lparr>coins := [], score := 0, events := [], particles := [], draws := 0\<rparr>)"
    by (simp only: checkCoins_frame)
  then show ?thesis by simp
qed

lemma checkObstacles_lists:
  "coins (checkObstacles rnd hb g) = coins g"
  "powerUps (checkObstacles rnd hb g) = powerUps g"
  "obstacles (checkObstacles rnd hb g) = obstacles g"
  "score (checkObstacles rnd hb g) = score g"
  by (simp_all add: checkObstacles_eq)

lemma checkCollisions_lists:
  "coins (checkCollisions nowAt rnd g) = map (markCoin (Player_getHitbox (player g))) (coins g)"
  "powerUps (checkCollisions nowAt rnd g) = map (markPowerUp (Player_getHitbox (player g))) (powerUps g)"
  "score (checkCollisions nowAt rnd g) =
     score g + 10 * real (length (filter
       (\<lambda>c. \<not> co_collected c \<and> isColliding (Player_getHitbox (player g)) (Coin_getHitbox c)) (coins g)))"
  by (simp_all add: checkCollisions_def Let_def checkObstacles_lists checkPowerUps_coins
      checkPowerUps_score checkPowerUps_powerUps checkCoins_coins checkCoins_powerUps checkCoins_score)

lemma checkCollisions_obstacles: "obstacles (checkCollisions nowAt rnd g) = obstacles g"
  by (rule checkCollisions_keeps) simp

lemma spawnGates_lists:
  "obstacles (spawnGates t rnd g) = obstacles g @ spawnedObstacles t rnd g"
  "coins (spawnGates t rnd g) = coins g @ spawnedCoins t rnd g"
  "powerUps (spawnGates t rnd g) = powerUps g @ spawnedPowerUps t rnd g"
  "lastObstacleSpawn (spawnGates t rnd g) =
     (if t - lastObstacleSpawn g > obstacleSpawnInterval g then t else lastObstacleSpawn g)"
  "lastCoinSpawn (spawnGates t rnd g) = (if t - lastCoinSpawn g > 1500 then t else lastCoinSpawn g)"
  "lastPowerUpSpawn (spawnGates t rnd g) =
     (if t - lastPowerUpSpawn g > 15000 then t else lastPowerUpSpawn g)"
  by (simp_all add: spawnGates_def spawnObstacle_def spawnCoin_def spawnPowerUp_def Let_def
      spawnedObstacles_def spawnedCoins_def spawnedPowerUps_def drawsAfterObstacle_def
      drawsAfterCoin_def)

lemma spawnGates_same:
  "canvas_height (spawnGates t rnd g) = canvas_height g"
  "gameSpeed (spawnGates t rnd g) = gameSpeed g"
  "activePowerUps (spawnGates t rnd g) = activePowerUps g"
  "player (spawnGates t rnd g) = player g"
  "particles (spawnGates t rnd g) = particles g"
  by (rule spawnGates_keeps, simp)+

lemma spawned_player:
  "spawnedObstacles t rnd (g\<lparr>player := p\<rparr>) = spawnedObstacles t rnd g"
  "spawnedCoins t rnd (g\<lparr>player := p\<rparr>) = spawnedCoins t rnd g"
  "spawnedPowerUps t rnd (g\<lparr>player := p\<rparr>) = spawnedPowerUps t rnd g"
  by (simp_all add: spawnedObstacles_def spawnedCoins_def spawnedPowerUps_def
      drawsAfterObstacle_def drawsAfterCoin_def)

lemma beforeCollisions_lists:
  "obstacles (beforeCollisions dt t rnd g) =
     filter (\<lambda>ob. vy (ob_position ob) < canvas_height g + 100)
       (map (Obstacle_update dt (gameSpeed g)) (obstacles g @ spawnedObstacles t rnd g))"
  "coins (beforeCollisions dt t rnd g) =
     filter (\<lambda>c. vy (co_position c) < canvas_height g + 50 \<and> \<not> co_collected c)
       (map (Coin_update dt (gameSpeed g)
               (pl_position (Player_update dt (lanePositions g) (player g)))
               (activePowerUps g Magnet \<noteq> None))
          (coins g @ spawnedCoins t rnd g))"
  "powerUps (beforeCollisions dt t rnd g) =
     filter (\<lambda>pu. vy (pu_position pu) < canvas_height g + 50 \<and> \<not> pu_collected pu)
       (map (PowerUp_update dt (gameSpeed g)) (powerUps g @ spawnedPowerUps t rnd g))"
  by (simp_all add: beforeCollisions_def purgeExpired_def advanceParticles_def advancePowerUps_def
      advanceCoins_def advanceObstacles_def Let_def spawnGates_same spawnGates_lists spawned_player)

lemma beforeCollisions_timers:
  "lastObstacleSpawn (beforeCollisions dt t rnd g) =
     (if t - lastObstacleSpawn g > obstacleSpawnInterval g then t else lastObstacleSpawn g)"
  "lastCoinSpawn (beforeCollisions dt t rnd g) = (if t - lastCoinSpawn g > 1500 then t else lastCoinSpawn g)"
  "lastPowerUpSpawn (beforeCollisions dt t rnd g) =
     (if t - lastPowerUpSpawn g > 15000 then t else lastPowerUpSpawn g)"
  "activePowerUps (beforeCollisions dt t rnd g) =
     (\<lambda>type. case activePowerUps g type of
                    None \<Rightarrow> None
                  | Some endTime \<Rightarrow> if t > endTime then None else Some endTime)"
  by (simp_all add: beforeCollisions_def purgeExpired_def advanceParticles_def advancePowerUps_def
      advanceCoins_def advanceObstacles_def Let_def spawnGates_same spawnGates_lists)

lemma update_lists:
  "obstacles (update dt t nowAt rnd g) =
     filter (\<lambda>ob. vy (ob_position ob) < canvas_height g + 100)
       (map (Obstacle_update dt (gameSpeed g)) (obstacles g @ spawnedObstacles t rnd g))"
  "coins (update dt t nowAt rnd g) =
     map (markCoin (Player_getHitbox (Player_update dt (lanePositions g) (player g))))
       (filter (\<lambda>c. vy (co_position c) < canvas_height g + 50 \<and> \<not> co_collected c)
          (map (Coin_update dt (gameSpeed g)
                  (pl_position (Player_update dt (lanePositions g) (player g)))
                  (activePowerUps g Magnet \<noteq> None))
             (coins g @ spawnedCoins t rnd g)))"
  "powerUps (update dt t nowAt rnd g) =
     map (markPowerUp (Player_getHitbox (Player_update dt (lanePositions g) (player g))))
       (filter (\<lambda>pu. vy (pu_position pu) < canvas_height g + 50 \<and> \<not> pu_collected pu)
          (map (PowerUp_update dt (gameSpeed g)) (powerUps g @ spawnedPowerUps t rnd g)))"
  by (simp_all add: update_eq addSurvivalScore_def emit_def updateDifficulty_def Let_def
      checkCollisions_lists checkCollisions_obstacles beforeCollisions_lists beforeCollisions_player)

lemma update_timers:
  "lastObstacleSpawn (update dt t nowAt rnd g) =
     (if t - lastObstacleSpawn g > obstacleSpawnInterval g then t else lastObstacleSpawn g)"
  "lastCoinSpawn (update dt t nowAt rnd g) = (if t - lastCoinSpawn g > 1500 then t else lastCoinSpawn g)"
  "lastPowerUpSpawn (update dt t nowAt rnd g) =
     (if t - lastPowerUpSpawn g > 15000 then t else lastPowerUpSpawn g)"
proof -
  let ?b = "beforeCollisions dt t rnd g"
  have "lastObstacleSpawn (checkCollisions nowAt rnd ?b) = lastObstacleSpawn ?b"
    by (rule checkCollisions_keeps) simp
  then show "lastObstacleSpawn (update dt t nowAt rnd g) =
     (if t - lastObstacleSpawn g > obstacleSpawnInterval g then t else lastObstacleSpawn g)"
    by (simp add: update_eq addSurvivalScore_def emit_def updateDifficulty_def Let_def
        beforeCollisions_timers)
  have "lastCoinSpawn (checkCollisions nowAt rnd ?b) = lastCoinSpawn ?b"
    by (rule checkCollisions_keeps) simp
  then show "lastCoinSpawn (update dt t nowAt rnd g) = (if t - lastCoinSpawn g > 1500 then t else lastCoinSpawn g)"
    by (simp add: update_eq addSurvivalScore_def emit_def updateDifficulty_def Let_def
        beforeCollisions_timers)
  have "lastPowerUpSpawn (checkCollisions nowAt rnd ?b) = lastPowerUpSpawn ?b"
    by (rule checkCollisions_keeps) simp
  then show "lastPowerUpSpawn (update dt t nowAt rnd g) =
     (if t - lastPowerUpSpawn g > 15000 then t else lastPowerUpSpawn g)"
    by (simp add: update_eq addSurvivalScore_def emit_def updateDifficulty_def Let_def
        beforeCollisions_timers)
qed

lemma update_score:
  "score (update dt t nowAt rnd g) =
     score (checkCollisions nowAt rnd (beforeCollisions dt t rnd g)) + dt * 10"
  "gameSpeed (update dt t nowAt rnd g) =
     baseSpeed g + real_of_int (\<lfloor>score (checkCollisions nowAt rnd (beforeCollisions dt t rnd g)) / 500\<rfloor> * 50)"
  "obstacleSpawnInterval (update dt t nowAt rnd g) =
     max 800 (2000 - \<lfloor>score (checkCollisions nowAt rnd (beforeCollisions dt t rnd g)) / 200\<rfloor> * 100)"
proof -
  let ?b = "beforeCollisions dt t rnd g"
  have "baseSpeed (checkCollisions nowAt rnd ?b) = baseSpeed ?b"
    by (rule checkCollisions_keeps) simp
  moreover have "baseSpeed ?b = baseSpeed g"
    by (rule beforeCollisions_keeps) simp
  ultimately show "gameSpeed (update dt t nowAt rnd g) =
     baseSpeed g + real_of_int (\<lfloor>score (checkCollisions nowAt rnd ?b) / 500\<rfloor> * 50)"
    by (simp add: update_eq addSurvivalScore_def emit_def updateDifficulty_def Let_def)
  show "score (update dt t nowAt rnd g) = score (checkCollisions nowAt rnd ?b) + dt * 10"
    by (simp add: update_eq addSurvivalScore_def emit_def updateDifficulty_def Let_def)
  show "obstacleSpawnInterval (update dt t nowAt rnd g) =
     max 800 (2000 - \<lfloor>score (checkCollisions nowAt rnd ?b) / 200\<rfloor> * 100)"
    by (simp add: update_eq addSurvivalScore_def emit_def updateDifficulty_def Let_def)
qed

lemma sampleEngine_more:
  "coins sampleEngine = []" "powerUps sampleEngine = []" "lastCoinSpawn sampleEngine = 0"
  "lastObstacleSpawn sampleEngine = 0" "lastPowerUpSpawn sampleEngine = 0"
  "baseSpeed sampleEngine = 300" "gameSpeed sampleEngine = 300" "score sampleEngine = 0"
  "canvas_height sampleEngine = 600" "obstacleSpawnInterval sampleEngine = 2000"
  "lanePositions sampleEngine = [200, 400, 600]"
  "player sampleEngine = Player_new 400 480 480"
  by (simp_all add: sampleEngine_def startGame_def resetGame_def setState_def emit_def
      GameEngine_init_def laneAt_def Let_def)

lemma quiet_tick_score:
  assumes "coins g = []" and "\<not> t - lastCoinSpawn g > 1500"
  shows "score (update dt t nowAt rnd g) = score g + dt * 10"
proof -
  have c: "coins (beforeCollisions dt t rnd g) = []"
    using assms by (simp add: beforeCollisions_lists spawnedCoins_def)
  have "score (beforeCollisions dt t rnd g) = score g"
    by (rule beforeCollisions_keeps) simp
  then show ?thesis by (simp add: update_score checkCollisions_lists c)
qed

lemma gameLoop_eq:
  "gameLoop rt t nowAt rnd g =
     (if state g = Playing then update (frameDelta rt g) t nowAt rnd (countFrame rt g)
      else countFrame rt g)"
  by (simp add: gameLoop_def countFrame_def frameDelta_def Let_def emit_def)

lemma countFrame_frame:
  "(countFrame rt g)\<lparr>lastTime := a, fpsCounter := b, fpsTime := c, events := e\<rparr>
     = g\<lparr>lastTime := a, fpsCounter := b, fpsTime := c, events := e\<rparr>"
  by (simp add: countFrame_def Let_def emit_def)

lemma countFrame_keeps:
  assumes "\<And>h a b c e. f (h\<lparr>lastTime := a, fpsCounter := b, fpsTime := c, events := e\<rparr>) = f h"
  shows "f (countFrame rt g) = f g"
  by (metis assms countFrame_frame)

lemma countFrame_same:
  "state (countFrame rt g) = state g"
  "obstacles (countFrame rt g) = obstacles g"
  "coins (countFrame rt g) = coins g"
  "powerUps (countFrame rt g) = powerUps g"
  "player (countFrame rt g) = player g"
  "lanePositions (countFrame rt g) = lanePositions g"
  "gameSpeed (countFrame rt g) = gameSpeed g"
  "canvas_height (countFrame rt g) = canvas_height g"
  "activePowerUps (countFrame rt g) = activePowerUps g"
  "lastObstacleSpawn (countFrame rt g) = lastObstacleSpawn g"
  "lastCoinSpawn (countFrame rt g) = lastCoinSpawn g"
  "lastPowerUpSpawn (countFrame rt g) = lastPowerUpSpawn g"
  "obstacleSpawnInterval (countFrame rt g) = obstacleSpawnInterval g"
  "draws (countFrame rt g) = draws g"
  "score (countFrame rt g) = score g"
  "lives (countFrame rt g) = lives g"
  by (rule countFrame_keeps, simp)+

lemma frameDelta_le: "frameDelta rt g \<le> 0.016"
  by (simp add: frameDelta_def)

lemma numCoins_range: "numCoins r1 r2 \<in> {1, 2, 3}"
  by (simp add: numCoins_def)

lemma fresh_obstacle:
  "vy (ob_position (Obstacle_update dt sp (Obstacle_new (Vector2D_new x (- 100)) l ty))) = - 100 + sp * dt"
  by (cases ty) (simp_all add: Obstacle_update_def Obstacle_new_def Vector2D_new_def)

lemma fresh_powerUp:
  "vy (pu_position (PowerUp_update dt sp (PowerUp_new (Vector2D_new x (- 100)) l ty))) = - 100 + sp * dt"
  "\<not> pu_collected (PowerUp_update dt sp (PowerUp_new (Vector2D_new x (- 100)) l ty))"
  by (simp_all add: PowerUp_update_def PowerUp_new_def Vector2D_new_def)

lemma fresh_coin:
  "vy (co_position (Coin_update dt sp pos False (clusterCoin lanes b i))) = - 100 - real i * 30 + sp * dt"
  "\<not> co_collected (Coin_update dt sp pos False (clusterCoin lanes b i))"
  by (simp_all add: Coin_update_def clusterCoin_def Coin_new_def Vector2D_new_def Let_def)

lemma fresh_coins_kept:
  assumes "sp * dt < h + 150"
  shows "filter (\<lambda>c. vy (co_position c) < h + 50 \<and> \<not> co_collected c)
           (map (Coin_update dt sp pos False) (map (clusterCoin lanes b) [0..<n]))
         = map (Coin_update dt sp pos False) (map (clusterCoin lanes b) [0..<n])"
proof -
  have "\<And>i. vy (co_position (Coin_update dt sp pos False (clusterCoin lanes b i))) < h + 50"
  proof -
    fix i :: nat
    have "- 100 - real i * 30 + sp * dt \<le> - 100 + sp * dt" by simp
    then show "vy (co_position (Coin_update dt sp pos False (clusterCoin lanes b i))) < h + 50"
      using assms by (simp add: fresh_coin)
  qed
  then show ?thesis by (simp add: fresh_coin)
qed

lemma startGame_fields:
  "state (startGame g) = Playing" "obstacles (startGame g) = []" "coins (startGame g) = []"
  "powerUps (startGame g) = []" "activePowerUps (startGame g) = Map.empty"
  "lastObstacleSpawn (startGame g) = 0" "lastCoinSpawn (startGame g) = 0"
  "lastPowerUpSpawn (startGame g) = 0" "gameSpeed (startGame g) = baseSpeed g"
  "canvas_height (startGame g) = canvas_height g"
  "obstacleSpawnInterval (startGame g) = obstacleSpawnInterval g"
  "draws (startGame g) = draws g" "lives (startGame g) = 3" "score (startGame g) = 0"
  by (simp_all add: startGame_def resetGame_def setState_def emit_def)





































lemma paused_frames_frame:
  "state g \<noteq> Playing \<Longrightarrow> \<forall>i \<in> set frames. isFrame i \<Longrightarrow>
   (run frames g)\<lparr>lastTime := a, fpsCounter := b, fpsTime := c, events := e\<rparr>
     = g\<lparr>lastTime := a, fpsCounter := b, fpsTime := c, events := e\<rparr>"
proof (induction frames arbitrary: g)
  case Nil
  then show ?case by simp
next
  case (Cons i frames)
  from Cons.prems obtain rt t nowAt rnd where i: "i = Frame rt t nowAt rnd"
    by (cases i) simp_all
  have d: "dispatch i g = countFrame rt g"
    using Cons.prems(1) by (simp add: i gameLoop_eq)
  have s: "state (countFrame rt g) \<noteq> Playing"
    using Cons.prems(1) by (simp add: countFrame_same)
  have "(run (i # frames) g)\<lparr>lastTime := a, fpsCounter := b, fpsTime := c, events := e\<rparr>
      = (run frames (countFrame rt g))\<lparr>lastTime := a, fpsCounter := b, fpsTime := c, events := e\<rparr>"
    by (simp add: d)
  also have "\<dots> = (countFrame rt g)\<lparr>lastTime := a, fpsCounter := b, fpsTime := c, events := e\<rparr>"
    using s Cons.prems(2) by (intro Cons.IH) simp_all
  also have "\<dots> = g\<lparr>lastTime := a, fpsCounter := b, fpsTime := c, events := e\<rparr>"
    by (rule countFrame_frame)
  finally show ?case .
qed

lemma pause_resume_frame:
  assumes "state g = Playing" and "\<forall>i \<in> set frames. isFrame i"
  shows "(resumeGame (run frames (pauseGame g)))
            \<lparr>lastTime := a, fpsCounter := b, fpsTime := c, events := e\<rparr>
         = g\<lparr>lastTime := a, fpsCounter := b, fpsTime := c, events := e\<rparr>"
proof -
  let ?p = "pauseGame g"
  let ?r = "run frames ?p"
  have p: "?p = g\<lparr>state := Paused, events := events g @ [StateChange Paused]\<rparr>"
    using assms(1) by (simp add: pauseGame_def setState_def emit_def)
  have sp: "state ?p \<noteq> Playing" by (simp add: p)
  have f: "?r\<lparr>lastTime := a, fpsCounter := b, fpsTime := c, events := e\<rparr>
      = ?p\<lparr>lastTime := a, fpsCounter := b, fpsTime := c, events := e\<rparr>" for a b c e
    using sp assms(2) by (rule paused_frames_frame)
  have "state (?r\<lparr>lastTime := 0, fpsCounter := 0, fpsTime := 0, events := []\<rparr>)
      = state (?p\<lparr>lastTime := 0, fpsCounter := 0, fpsTime := 0, events := []\<rparr>)"
    by (simp only: f)
  then have sr: "state ?r = Paused" by (simp add: p)
  have "(resumeGame ?r)\<lparr>lastTime := a, fpsCounter := b, fpsTime := c, events := e\<rparr>
      = ?r\<lparr>lastTime := a, fpsCounter := b, fpsTime := c, events := e\<rparr>\<lparr>state := Playing\<rparr>"
    using sr by (simp add: resumeGame_def setState_def emit_def)
  also have "\<dots> = ?p\<lparr>lastTime := a, fpsCounter := b, fpsTime := c, events := e\<rparr>\<lparr>state := Playing\<rparr>"
    by (simp only: f)
  also have "\<dots> = g\<lparr>lastTime := a, fpsCounter := b, fpsTime := c, events := e\<rparr>"
    using assms(1) by (simp add: p)
  finally show ?thesis .
qed

lemma pause_resume_keeps:
  assumes "state g = Playing" and "\<forall>i \<in> set frames. isFrame i"
    and "\<And>h a b c e. f (h\<lparr>lastTime := a, fpsCounter := b, fpsTime := c, events := e\<rparr>) = f h"
  shows "f (resumeGame (run frames (pauseGame g))) = f g"
  by (metis assms(3) pause_resume_frame [OF assms(1) assms(2)])

lemma gameLoop_timers:
  assumes "state g = Playing"
  shows "lastObstacleSpawn (gameLoop rt t nowAt rnd g) =
     (if t - lastObstacleSpawn g > obstacleSpawnInterval g then t else lastObstacleSpawn g)"
    and "lastCoinSpawn (gameLoop rt t nowAt rnd g) = (if t - lastCoinSpawn g > 1500 then t else lastCoinSpawn g)"
    and "lastPowerUpSpawn (gameLoop rt t nowAt rnd g) =
     (if t - lastPowerUpSpawn g > 15000 then t else lastPowerUpSpawn g)"
  using assms by (simp_all add: gameLoop_eq update_timers countFrame_same)

lemma runningSample_reachable: "reachable runningSample"
proof -
  have "reachable (run [StartGame, Frame 16 1000000 (\<lambda>k. 1000000) (\<lambda>n. 1 / 2)]
      (GameEngine_init 800 600 800 600 False))"
    by (rule reachable_run, rule reachable.constructed [of 800 600 800 600 False])
       (simp add: GameEngine_new_def)
  then show ?thesis by (simp add: runningSample_def sampleEngine_def)
qed

lemma runningSample_fields:
  "state runningSample = Playing" "lastObstacleSpawn runningSample = 1000000"
  "lastCoinSpawn runningSample = 1000000" "lastPowerUpSpawn runningSample = 1000000"
proof -
  have s: "state sampleEngine = Playing" by (simp add: sampleEngine_fields)
  have "state (update dt t nowAt rnd sampleEngine) = Playing" for dt t nowAt rnd
    using update_lives_state [of dt t nowAt rnd sampleEngine]
    by (auto simp add: sampleEngine_fields)
  then have "state (update dt t nowAt rnd (countFrame rt sampleEngine)) = Playing" for dt t nowAt rnd rt
    using update_lives_state [of dt t nowAt rnd "countFrame rt sampleEngine"]
    by (auto simp add: sampleEngine_fields countFrame_same)
  then show "state runningSample = Playing"
    by (simp add: runningSample_def gameLoop_eq s)
  show "lastObstacleSpawn runningSample = 1000000" "lastCoinSpawn runningSample = 1000000"
    "lastPowerUpSpawn runningSample = 1000000"
    by (simp_all add: runningSample_def gameLoop_timers [OF s] sampleEngine_more)
qed

lemma magnetSample_fields:
  "state magnetSample = Playing" "lastObstacleSpawn magnetSample = 1000000"
  "lastCoinSpawn magnetSample = 1000000" "lastPowerUpSpawn magnetSample = 1000000"
  "activePowerUps magnetSample Magnet = Some 1008050"
  by (simp_all add: magnetSample_def activatePowerUp_def duration_def Let_def runningSample_fields)

section \<open>The claims\<close>



text \<open>
  C2: through every sequence of inputs (lane moves in either direction, in runs of any
  length, interleaved with ticks and every other input) the target lane and the current
  lane stay in \<open>{0, 1, 2}\<close>; \<^verbatim>\<open>moveLane\<close> clamps \<open>targetLane + direction\<close> into \<open>[0, 2]\<close>, and
  from lane 1 two moves to the left end in lane 0.
\<close>

theorem lane_index_in_range:
  "targetLane (player (run inputs (GameEngine_init cw ch width height mobile))) \<in> {0, 1, 2} \<and>
   currentLane (player (run inputs (GameEngine_init cw ch width height mobile))) \<in> {0, 1, 2} \<and>
   (reachable g \<longrightarrow> targetLane (player g) \<in> {0, 1, 2} \<and> currentLane (player g) \<in> {0, 1, 2}) \<and>
   (reachable g \<and> set ds \<subseteq> {- 1, 1} \<longrightarrow>
      targetLane (fold moveLane ds (player g)) \<in> {0, 1, 2} \<and>
      currentLane (fold moveLane ds (player g)) \<in> {0, 1, 2}) \<and>
   targetLane (moveLane d p) = clamp (targetLane p + d) 0 2 \<and>
   0 \<le> targetLane (moveLane d p) \<and> targetLane (moveLane d p) \<le> 2 \<and>
   (targetLane p = 1 \<longrightarrow> targetLane (moveLane (- 1) (moveLane (- 1) p)) = 0)"
proof -
  have r0: "reachable (GameEngine_init cw ch width height mobile)"
    by (rule reachable.constructed [of cw ch width height mobile]) (simp add: GameEngine_new_def)
  have "engine_inv (run inputs (GameEngine_init cw ch width height mobile))"
    using r0 by (intro reachable_inv reachable_run)
  then have a: "targetLane (player (run inputs (GameEngine_init cw ch width height mobile))) \<in> {0, 1, 2} \<and>
   currentLane (player (run inputs (GameEngine_init cw ch width height mobile))) \<in> {0, 1, 2}"
    by (simp add: engine_inv_def)
  have b: "reachable g \<longrightarrow> targetLane (player g) \<in> {0, 1, 2} \<and> currentLane (player g) \<in> {0, 1, 2}"
    using reachable_inv [of g] by (auto simp add: engine_inv_def)
  have f: "targetLane q \<in> {0, 1, 2} \<and> currentLane q \<in> {0, 1, 2} \<Longrightarrow>
      targetLane (fold moveLane ds q) \<in> {0, 1, 2} \<and> currentLane (fold moveLane ds q) \<in> {0, 1, 2}" for q
  proof (induction ds arbitrary: q)
    case Nil
    then show ?case by simp
  next
    case (Cons d ds)
    have "targetLane (moveLane d q) \<in> {0, 1, 2} \<and> currentLane (moveLane d q) \<in> {0, 1, 2}"
      using Cons.prems clamp_lane [of "targetLane q + d"] by (simp add: moveLane_def)
    then show ?case using Cons.IH by simp
  qed
  have c: "reachable g \<and> set ds \<subseteq> {- 1, 1} \<longrightarrow>
      targetLane (fold moveLane ds (player g)) \<in> {0, 1, 2} \<and>
      currentLane (fold moveLane ds (player g)) \<in> {0, 1, 2}"
    using b f by blast
  have d: "targetLane (moveLane d p) = clamp (targetLane p + d) 0 2"
    by (simp add: moveLane_def)
  have e: "0 \<le> targetLane (moveLane d p) \<and> targetLane (moveLane d p) \<le> 2"
    using clamp_lane [of "targetLane p + d"] by (auto simp add: moveLane_def)
  have g: "targetLane p = 1 \<longrightarrow> targetLane (moveLane (- 1) (moveLane (- 1) p)) = 0"
    by (simp add: moveLane_def clamp_def)
  show ?thesis using a b c d e g by blast
qed

theorem lane_index_in_range_witness:
  "reachable (run [StartGame, KeyDown ''ArrowLeft''] (GameEngine_init 800 600 800 600 False)) \<and>
   set [- 1, - 1] \<subseteq> {- 1, 1 :: int} \<and>
   targetLane (player (run [StartGame, KeyDown ''ArrowLeft''] (GameEngine_init 800 600 800 600 False))) = 0 \<and>
   targetLane (fold moveLane [- 1, - 1]
     (player (run [StartGame, KeyDown ''ArrowLeft''] (GameEngine_init 800 600 800 600 False)))) = 0 \<and>
   targetLane (Player_new 400 480 480) = 1 \<and>
   targetLane (moveLane (- 1) (moveLane (- 1) (Player_new 400 480 480))) = 0"
proof -
  let ?g = "run [StartGame, KeyDown ''ArrowLeft''] (GameEngine_init 800 600 800 600 False)"
  have r: "reachable ?g"
    by (rule reachable_run, rule reachable.constructed [of 800 600 800 600 False])
       (simp add: GameEngine_new_def)
  have s: "set [- 1, - 1] \<subseteq> {- 1, 1 :: int}" by simp
  have t: "targetLane (player ?g) = 0"
    by (simp add: GameEngine_init_def startGame_def resetGame_def setState_def emit_def keydown_def
        onPlayer_def moveLane_def clamp_def Player_new_def Let_def)
  have u: "targetLane (Player_new 400 480 480) = 1" by (simp add: Player_new_def)
  show ?thesis
    using r s t u lane_index_in_range [of "[]" 800 600 800 600 False ?g "[- 1, - 1]" "- 1" "Player_new 400 480 480"]
    by (simp add: moveLane_def clamp_def)
qed

text \<open>
  C3: \<^verbatim>\<open>activatePowerUp(kind)\<close> stores \<open>now + duration(kind)\<close> as the expiry of \<open>kind\<close>, whatever
  the registry held before, and changes no other kind's entry; the durations are 8000,
  6000 and 10000 ms. A second activation stores \<open>now2 + duration(kind)\<close>, which is not
  earlier than the first expiry when \<open>now1 \<le> now2\<close>.
\<close>

theorem activatePowerUp_expiry:
  "activePowerUps (activatePowerUp now kind g) kind = Some (now + duration kind) \<and>
   activePowerUps (activatePowerUp now kind g) kind = activePowerUps (activatePowerUp now kind g') kind \<and>
   (\<forall>k. k \<noteq> kind \<longrightarrow> activePowerUps (activatePowerUp now kind g) k = activePowerUps g k) \<and>
   dom (activePowerUps (activatePowerUp now kind g)) = insert kind (dom (activePowerUps g)) \<and>
   duration Magnet = 8000 \<and> duration Speed = 6000 \<and> duration Shield = 10000 \<and>
   activePowerUps (activatePowerUp now2 kind (activatePowerUp now1 kind g)) kind
     = Some (now2 + duration kind) \<and>
   (now1 \<le> now2 \<longrightarrow>
      (\<exists>e1 e2. activePowerUps (activatePowerUp now1 kind g) kind = Some e1 \<and>
               activePowerUps (activatePowerUp now2 kind (activatePowerUp now1 kind g)) kind = Some e2 \<and>
               e1 \<le> e2))"
  by (simp add: activatePowerUp_def duration_def Let_def)

theorem activatePowerUp_expiry_witness:
  "(1000 :: int) \<le> 4000 \<and>
   activePowerUps (activatePowerUp 1000 Speed (GameEngine_init 800 600 800 600 False)) Speed = Some 7000 \<and>
   activePowerUps (activatePowerUp 4000 Speed
     (activatePowerUp 1000 Speed (GameEngine_init 800 600 800 600 False))) Speed = Some 10000 \<and>
   activePowerUps (activatePowerUp 4000 Speed
     (activatePowerUp 1000 Speed (GameEngine_init 800 600 800 600 False))) Magnet = None"
  using activatePowerUp_expiry [of 1000 Speed "GameEngine_init 800 600 800 600 False" _ 4000 1000]
  by (simp add: activatePowerUp_def duration_def GameEngine_init_def Let_def)

text \<open>
  C4, as the code has it. Pausing runs no tick, so a pause followed by any number of
  frames and a resume leaves the stored spawn timestamps, the obstacle interval and the
  effect expiries as they were. But these are wall-clock timestamps compared with
  \<^verbatim>\<open>Date.now()\<close>: after a pause of \<open>d\<close> ms the remaining time of every gate and of every
  effect is \<open>d\<close> ms less than when the pause began. On the first frame after the resume a
  gate fires exactly when its remaining time at the start of the pause was less than
  \<open>d\<close>, and the purge drops an effect exactly when its remaining time was less than \<open>d\<close>.
\<close>

theorem pause_keeps_timestamps_not_remaining_time:
  "state g = Playing \<and> (\<forall>i \<in> set frames. isFrame i) \<longrightarrow>
     state (resumeGame (run frames (pauseGame g))) = Playing \<and>
     lastObstacleSpawn (resumeGame (run frames (pauseGame g))) = lastObstacleSpawn g \<and>
     lastCoinSpawn (resumeGame (run frames (pauseGame g))) = lastCoinSpawn g \<and>
     lastPowerUpSpawn (resumeGame (run frames (pauseGame g))) = lastPowerUpSpawn g \<and>
     obstacleSpawnInterval (resumeGame (run frames (pauseGame g))) = obstacleSpawnInterval g \<and>
     activePowerUps (resumeGame (run frames (pauseGame g))) = activePowerUps g \<and>
     obstacleGateRemaining (resumeGame (run frames (pauseGame g))) (t + d)
       = obstacleGateRemaining g t - d \<and>
     coinGateRemaining (resumeGame (run frames (pauseGame g))) (t + d) = coinGateRemaining g t - d \<and>
     powerUpGateRemaining (resumeGame (run frames (pauseGame g))) (t + d)
       = powerUpGateRemaining g t - d \<and>
     effectRemaining (resumeGame (run frames (pauseGame g))) kind (t + d)
       = map_option (\<lambda>r. r - d) (effectRemaining g kind t) \<and>
     lastObstacleSpawn (gameLoop rt (t + d) nowAt rnd (resumeGame (run frames (pauseGame g))))
       = (if obstacleGateRemaining g t < d then t + d else lastObstacleSpawn g) \<and>
     lastCoinSpawn (gameLoop rt (t + d) nowAt rnd (resumeGame (run frames (pauseGame g))))
       = (if coinGateRemaining g t < d then t + d else lastCoinSpawn g) \<and>
     lastPowerUpSpawn (gameLoop rt (t + d) nowAt rnd (resumeGame (run frames (pauseGame g))))
       = (if powerUpGateRemaining g t < d then t + d else lastPowerUpSpawn g) \<and>
     activePowerUps (purgeExpired (t + d) (resumeGame (run frames (pauseGame g)))) kind
       = (case effectRemaining g kind t of
            None \<Rightarrow> None
          | Some r \<Rightarrow> if r < d then None else activePowerUps g kind)"
proof
  assume h: "state g = Playing \<and> (\<forall>i \<in> set frames. isFrame i)"
  let ?R = "resumeGame (run frames (pauseGame g))"
  have k: "f ?R = f g"
    if "\<And>h a b c e. f (h\<lparr>lastTime := a, fpsCounter := b, fpsTime := c, events := e\<rparr>) = f h" for f
    using h that by (intro pause_resume_keeps) blast+
  have s: "state ?R = Playing" using k [of state] h by simp
  have lo: "lastObstacleSpawn ?R = lastObstacleSpawn g" by (rule k) simp
  have lc: "lastCoinSpawn ?R = lastCoinSpawn g" by (rule k) simp
  have lp: "lastPowerUpSpawn ?R = lastPowerUpSpawn g" by (rule k) simp
  have oi: "obstacleSpawnInterval ?R = obstacleSpawnInterval g" by (rule k) simp
  have ap: "activePowerUps ?R = activePowerUps g" by (rule k) simp
  have r1: "obstacleGateRemaining ?R (t + d) = obstacleGateRemaining g t - d"
    by (simp add: obstacleGateRemaining_def lo oi)
  have r2: "coinGateRemaining ?R (t + d) = coinGateRemaining g t - d"
    by (simp add: coinGateRemaining_def lc)
  have r3: "powerUpGateRemaining ?R (t + d) = powerUpGateRemaining g t - d"
    by (simp add: powerUpGateRemaining_def lp)
  have r4: "effectRemaining ?R kind (t + d) = map_option (\<lambda>r. r - d) (effectRemaining g kind t)"
    by (cases "activePowerUps g kind") (simp_all add: effectRemaining_def ap)
  have g1: "lastObstacleSpawn (gameLoop rt (t + d) nowAt rnd ?R)
       = (if obstacleGateRemaining g t < d then t + d else lastObstacleSpawn g)"
    by (auto simp add: gameLoop_timers [OF s] lo oi obstacleGateRemaining_def)
  have g2: "lastCoinSpawn (gameLoop rt (t + d) nowAt rnd ?R)
       = (if coinGateRemaining g t < d then t + d else lastCoinSpawn g)"
    by (auto simp add: gameLoop_timers [OF s] lc coinGateRemaining_def)
  have g3: "lastPowerUpSpawn (gameLoop rt (t + d) nowAt rnd ?R)
       = (if powerUpGateRemaining g t < d then t + d else lastPowerUpSpawn g)"
    by (auto simp add: gameLoop_timers [OF s] lp powerUpGateRemaining_def)
  have g4: "activePowerUps (purgeExpired (t + d) ?R) kind
       = (case effectRemaining g kind t of
            None \<Rightarrow> None
          | Some r \<Rightarrow> if r < d then None else activePowerUps g kind)"
    by (cases "activePowerUps g kind") (auto simp add: purgeExpired_def effectRemaining_def ap)
  show "state ?R = Playing \<and>
     lastObstacleSpawn ?R = lastObstacleSpawn g \<and>
     lastCoinSpawn ?R = lastCoinSpawn g \<and>
     lastPowerUpSpawn ?R = lastPowerUpSpawn g \<and>
     obstacleSpawnInterval ?R = obstacleSpawnInterval g \<and>
     activePowerUps ?R = activePowerUps g \<and>
     obstacleGateRemaining ?R (t + d) = obstacleGateRemaining g t - d \<and>
     coinGateRemaining ?R (t + d) = coinGateRemaining g t - d \<and>
     powerUpGateRemaining ?R (t + d) = powerUpGateRemaining g t - d \<and>
     effectRemaining ?R kind (t + d) = map_option (\<lambda>r. r - d) (effectRemaining g kind t) \<and>
     lastObstacleSpawn (gameLoop rt (t + d) nowAt rnd ?R)
       = (if obstacleGateRemaining g t < d then t + d else lastObstacleSpawn g) \<and>
     lastCoinSpawn (gameLoop rt (t + d) nowAt rnd ?R)
       = (if coinGateRemaining g t < d then t + d else lastCoinSpawn g) \<and>
     lastPowerUpSpawn (gameLoop rt (t + d) nowAt rnd ?R)
       = (if powerUpGateRemaining g t < d then t + d else lastPowerUpSpawn g) \<and>
     activePowerUps (purgeExpired (t + d) ?R) kind
       = (case effectRemaining g kind t of
            None \<Rightarrow> None
          | Some r \<Rightarrow> if r < d then None else activePowerUps g kind)"
    using s lo lc lp oi ap r1 r2 r3 r4 g1 g2 g3 g4 by blast
qed

theorem pause_keeps_timestamps_not_remaining_time_witness:
  "reachable runningSample \<and> state runningSample = Playing \<and>
   isFrame (Frame 5016 1005000 (\<lambda>k. 1005000) (\<lambda>n. 1 / 2)) \<and>
   coinGateRemaining runningSample 1000100 = 1400 \<and>
   powerUpGateRemaining runningSample 1000100 = 14900 \<and>
   lastCoinSpawn
     (resumeGame (run [Frame 5016 1005000 (\<lambda>k. 1005000) (\<lambda>n. 1 / 2)] (pauseGame runningSample)))
     = 1000000 \<and>
   coinGateRemaining
     (resumeGame (run [Frame 5016 1005000 (\<lambda>k. 1005000) (\<lambda>n. 1 / 2)] (pauseGame runningSample)))
     (1000100 + 10000) = - 8600 \<and>
   lastCoinSpawn (gameLoop 10116 (1000100 + 10000) (\<lambda>k. 1010100) (\<lambda>n. 1 / 2)
     (resumeGame (run [Frame 5016 1005000 (\<lambda>k. 1005000) (\<lambda>n. 1 / 2)] (pauseGame runningSample))))
     = 1010100 \<and>
   lastPowerUpSpawn (gameLoop 10116 (1000100 + 10000) (\<lambda>k. 1010100) (\<lambda>n. 1 / 2)
     (resumeGame (run [Frame 5016 1005000 (\<lambda>k. 1005000) (\<lambda>n. 1 / 2)] (pauseGame runningSample))))
     = 1000000"
proof -
  let ?fs = "[Frame 5016 1005000 (\<lambda>k. 1005000) (\<lambda>n. 1 / 2)]"
  have p: "state runningSample = Playing \<and> (\<forall>i \<in> set ?fs. isFrame i)"
    by (simp add: runningSample_fields)
  have r: "coinGateRemaining runningSample 1000100 = 1400"
    "powerUpGateRemaining runningSample 1000100 = 14900"
    by (simp_all add: coinGateRemaining_def powerUpGateRemaining_def runningSample_fields)
  show ?thesis
    using p r runningSample_reachable pause_keeps_timestamps_not_remaining_time
      [of runningSample ?fs 1000100 10000 Magnet 10116 "\<lambda>k. 1010100" "\<lambda>n. 1 / 2"]
    by (simp add: runningSample_fields del: run.simps)
qed

theorem pause_advances_timers_counterexample:
  "state magnetSample = Playing \<and>
   coinGateRemaining magnetSample 1000100 = 1400 \<and>
   powerUpGateRemaining magnetSample 1000100 = 14900 \<and>
   effectRemaining magnetSample Magnet 1000100 = Some 7950 \<and>
   state (resumeGame (run [Frame 5016 1005000 (\<lambda>k. 1005000) (\<lambda>n. 1 / 2)] (pauseGame magnetSample)))
     = Playing \<and>
   coinGateRemaining
     (resumeGame (run [Frame 5016 1005000 (\<lambda>k. 1005000) (\<lambda>n. 1 / 2)] (pauseGame magnetSample)))
     1010100 = - 8600 \<and>
   powerUpGateRemaining
     (resumeGame (run [Frame 5016 1005000 (\<lambda>k. 1005000) (\<lambda>n. 1 / 2)] (pauseGame magnetSample)))
     1010100 = 4900 \<and>
   effectRemaining
     (resumeGame (run [Frame 5016 1005000 (\<lambda>k. 1005000) (\<lambda>n. 1 / 2)] (pauseGame magnetSample)))
     Magnet 1010100 = Some (- 2050) \<and>
   lastCoinSpawn (gameLoop 10116 1010100 (\<lambda>k. 1010100) (\<lambda>n. 1 / 2)
     (resumeGame (run [Frame 5016 1005000 (\<lambda>k. 1005000) (\<lambda>n. 1 / 2)] (pauseGame magnetSample))))
     = 1010100 \<and>
   activePowerUps (purgeExpired 1010100
     (resumeGame (run [Frame 5016 1005000 (\<lambda>k. 1005000) (\<lambda>n. 1 / 2)] (pauseGame magnetSample))))
     Magnet = None"
proof -
  let ?fs = "[Frame 5016 1005000 (\<lambda>k. 1005000) (\<lambda>n. 1 / 2)]"
  let ?R = "resumeGame (run ?fs (pauseGame magnetSample))"
  have fr: "\<forall>i \<in> set ?fs. isFrame i" by simp
  have k: "f ?R = f magnetSample"
    if "\<And>h a b c e. f (h\<lparr>lastTime := a, fpsCounter := b, fpsTime := c, events := e\<rparr>) = f h" for f
    using that by (intro pause_resume_keeps magnetSample_fields fr) blast
  have s: "state ?R = Playing" using k [of state] by (simp add: magnetSample_fields del: run.simps)
  have lc: "lastCoinSpawn ?R = 1000000"
    using k [of lastCoinSpawn] by (simp add: magnetSample_fields del: run.simps)
  have lp: "lastPowerUpSpawn ?R = 1000000"
    using k [of lastPowerUpSpawn] by (simp add: magnetSample_fields del: run.simps)
  have ap: "activePowerUps ?R = activePowerUps magnetSample" by (rule k) simp
  have a: "coinGateRemaining magnetSample 1000100 = 1400 \<and>
      powerUpGateRemaining magnetSample 1000100 = 14900 \<and>
      effectRemaining magnetSample Magnet 1000100 = Some 7950"
    by (simp add: coinGateRemaining_def powerUpGateRemaining_def effectRemaining_def magnetSample_fields)
  have b: "coinGateRemaining ?R 1010100 = - 8600 \<and> powerUpGateRemaining ?R 1010100 = 4900 \<and>
      effectRemaining ?R Magnet 1010100 = Some (- 2050)"
    by (simp add: coinGateRemaining_def powerUpGateRemaining_def effectRemaining_def lc lp ap
        magnetSample_fields del: run.simps)
  have c: "lastCoinSpawn (gameLoop 10116 1010100 (\<lambda>k. 1010100) (\<lambda>n. 1 / 2) ?R) = 1010100"
    by (simp add: gameLoop_timers [OF s] lc del: run.simps)
  have d: "activePowerUps (purgeExpired 1010100 ?R) Magnet = None"
    by (simp add: purgeExpired_def ap magnetSample_fields del: run.simps)
  show ?thesis using s a b c d by (simp add: magnetSample_fields del: run.simps)
qed







text \<open>
  C7: every tick sets \<open>gameSpeed = baseSpeed + floor(score / 500) * 50\<close> and the obstacle
  interval to \<open>max(800, 2000 - floor(score / 200) * 100)\<close>, where \<open>score\<close> is the score the
  block reads: the tick's final score without the survival bonus \<open>dt * 10\<close>, which the tick
  adds afterwards. \<open>baseSpeed\<close> is 300 in every reachable state. The interval is 2000 at
  score 0, 1800 at score 400 and never below 800; from a score of exactly 500, a tick in
  which the score grows by the survival bonus alone sets the speed to 350.
\<close>

theorem difficulty_curve:
  "gameSpeed (update dt t nowAt rnd g) =
     baseSpeed g + real_of_int (\<lfloor>(score (update dt t nowAt rnd g) - dt * 10) / 500\<rfloor> * 50) \<and>
   obstacleSpawnInterval (update dt t nowAt rnd g) =
     max 800 (2000 - \<lfloor>(score (update dt t nowAt rnd g) - dt * 10) / 200\<rfloor> * 100) \<and>
   800 \<le> obstacleSpawnInterval (update dt t nowAt rnd g) \<and>
   (reachable g \<longrightarrow>
      baseSpeed g = 300 \<and>
      gameSpeed (update dt t nowAt rnd g) =
        300 + real_of_int (\<lfloor>(score (update dt t nowAt rnd g) - dt * 10) / 500\<rfloor> * 50)) \<and>
   gameSpeed (updateDifficulty g) = baseSpeed g + real_of_int (\<lfloor>score g / 500\<rfloor> * 50) \<and>
   obstacleSpawnInterval (updateDifficulty g) = max 800 (2000 - \<lfloor>score g / 200\<rfloor> * 100) \<and>
   (score g = 0 \<longrightarrow> obstacleSpawnInterval (updateDifficulty g) = 2000) \<and>
   (score g = 400 \<longrightarrow> obstacleSpawnInterval (updateDifficulty g) = 1800) \<and>
   (baseSpeed g = 300 \<and> score g = 500 \<and> score (update dt t nowAt rnd g) = score g + dt * 10 \<longrightarrow>
      gameSpeed (update dt t nowAt rnd g) = 350)"
proof -
  let ?u = "update dt t nowAt rnd g"
  let ?s = "score (checkCollisions nowAt rnd (beforeCollisions dt t rnd g))"
  have s: "score ?u - dt * 10 = ?s"
    by (simp add: update_score)
  have a: "gameSpeed ?u = baseSpeed g + real_of_int (\<lfloor>(score ?u - dt * 10) / 500\<rfloor> * 50)"
    unfolding s by (rule update_score)
  have b: "obstacleSpawnInterval ?u = max 800 (2000 - \<lfloor>(score ?u - dt * 10) / 200\<rfloor> * 100)"
    unfolding s by (rule update_score)
  have c: "800 \<le> obstacleSpawnInterval ?u"
    by (simp add: update_score)
  have d: "reachable g \<longrightarrow> baseSpeed g = 300"
    using reachable_inv [of g] by (auto simp add: engine_inv_def)
  have e: "gameSpeed (updateDifficulty g) = baseSpeed g + real_of_int (\<lfloor>score g / 500\<rfloor> * 50) \<and>
     obstacleSpawnInterval (updateDifficulty g) = max 800 (2000 - \<lfloor>score g / 200\<rfloor> * 100)"
    by (simp add: updateDifficulty_def)
  have f: "score g = 0 \<longrightarrow> obstacleSpawnInterval (updateDifficulty g) = 2000"
    by (simp add: updateDifficulty_def)
  have h: "score g = 400 \<longrightarrow> obstacleSpawnInterval (updateDifficulty g) = 1800"
    by (simp add: updateDifficulty_def)
  have i: "baseSpeed g = 300 \<and> score g = 500 \<and> score ?u = score g + dt * 10 \<longrightarrow> gameSpeed ?u = 350"
  proof
    assume p: "baseSpeed g = 300 \<and> score g = 500 \<and> score ?u = score g + dt * 10"
    then have "(score ?u - dt * 10) / 500 = 1" by simp
    then show "gameSpeed ?u = 350" using a p by simp
  qed
  show ?thesis using a b c d e f h i by auto
qed

theorem difficulty_curve_witness:
  "reachable sampleEngine \<and> baseSpeed sampleEngine = 300 \<and>
   score sampleEngine = 0 \<and> obstacleSpawnInterval (updateDifficulty sampleEngine) = 2000 \<and>
   score (sampleEngine\<lparr>score := 400\<rparr>) = 400 \<and>
   obstacleSpawnInterval (updateDifficulty (sampleEngine\<lparr>score := 400\<rparr>)) = 1800 \<and>
   obstacleSpawnInterval (updateDifficulty (sampleEngine\<lparr>score := 100000\<rparr>)) = 800 \<and>
   baseSpeed (sampleEngine\<lparr>score := 500\<rparr>) = 300 \<and> score (sampleEngine\<lparr>score := 500\<rparr>) = 500 \<and>
   score (update 0.016 0 (\<lambda>k. 0) (\<lambda>n. 1 / 2) (sampleEngine\<lparr>score := 500\<rparr>))
     = score (sampleEngine\<lparr>score := 500\<rparr>) + 0.016 * 10 \<and>
   gameSpeed (update 0.016 0 (\<lambda>k. 0) (\<lambda>n. 1 / 2) (sampleEngine\<lparr>score := 500\<rparr>)) = 350 \<and>
   gameSpeed (update 0.016 0 (\<lambda>k. 0) (\<lambda>n. 1 / 2) (sampleEngine\<lparr>score := 499.9\<rparr>)) = 300"
proof -
  let ?rnd = "\<lambda>n::nat. 1 / 2 :: real"
  let ?now = "\<lambda>k::nat. 0 :: int"
  let ?g5 = "sampleEngine\<lparr>score := 500\<rparr>"
  let ?g4 = "sampleEngine\<lparr>score := 499.9\<rparr>"
  note th = difficulty_curve
  have s5: "score (update 0.016 0 ?now ?rnd ?g5) = score ?g5 + 0.016 * 10"
    by (rule quiet_tick_score) (simp_all add: sampleEngine_more)
  have s4: "score (update 0.016 0 ?now ?rnd ?g4) = score ?g4 + 0.016 * 10"
    by (rule quiet_tick_score) (simp_all add: sampleEngine_more)
  have w1: "reachable sampleEngine \<and> baseSpeed sampleEngine = 300 \<and> score sampleEngine = 0"
    by (simp add: sampleEngine_reachable sampleEngine_more)
  have w2: "obstacleSpawnInterval (updateDifficulty sampleEngine) = 2000"
    using th [of 0 0 ?now ?rnd sampleEngine] w1 by blast
  have w3: "obstacleSpawnInterval (updateDifficulty (sampleEngine\<lparr>score := 400\<rparr>)) = 1800"
    using th [of 0 0 ?now ?rnd "sampleEngine\<lparr>score := 400\<rparr>"] by simp
  have w4: "obstacleSpawnInterval (updateDifficulty (sampleEngine\<lparr>score := 100000\<rparr>)) = 800"
    using th [of 0 0 ?now ?rnd "sampleEngine\<lparr>score := 100000\<rparr>"] by simp
  have w5: "gameSpeed (update 0.016 0 ?now ?rnd ?g5) = 350"
    using th [of "0.016" 0 ?now ?rnd ?g5] s5 by (simp add: sampleEngine_more)
  have e4: "(score (update 0.016 0 ?now ?rnd ?g4) - 0.016 * 10) / 500 = 4999 / 5000"
    using s4 by simp
  have f4: "gameSpeed (update 0.016 0 ?now ?rnd ?g4) =
      baseSpeed ?g4 + real_of_int (\<lfloor>(score (update 0.016 0 ?now ?rnd ?g4) - 0.016 * 10) / 500\<rfloor> * 50)"
    using th [of "0.016" 0 ?now ?rnd ?g4] by blast
  have w6: "gameSpeed (update 0.016 0 ?now ?rnd ?g4) = 300"
    unfolding f4 e4 by (simp add: sampleEngine_more)
  show ?thesis using w1 w2 w3 w4 w5 w6 s5 by (simp add: sampleEngine_more)
qed

text \<open>
  C8: \<^verbatim>\<open>jump()\<close> and \<^verbatim>\<open>slide()\<close> change nothing when \<open>isJumping\<close> or \<open>isSliding\<close> is set;
  otherwise each sets its own flag (\<^verbatim>\<open>jump()\<close> also the vertical velocity, to \<open>-600\<close>;
  \<^verbatim>\<open>slide()\<close> also the slide countdown, to 800). After every sequence of inputs at most
  one of the two flags is set.
\<close>

theorem jump_slide_exclusive:
  "(isJumping p \<or> isSliding p \<longrightarrow> jump p = p \<and> slide p = p) \<and>
   (\<not> isJumping p \<and> \<not> isSliding p \<longrightarrow>
      jump p = p\<lparr>isJumping := True, pl_velocity := (pl_velocity p)\<lparr>vy := - 600\<rparr>\<rparr> \<and>
      slide p = p\<lparr>isSliding := True, slideTime := 800\<rparr>) \<and>
   \<not> (isJumping (player (run inputs (GameEngine_init cw ch width height mobile))) \<and>
      isSliding (player (run inputs (GameEngine_init cw ch width height mobile)))) \<and>
   (reachable g \<longrightarrow> \<not> (isJumping (player g) \<and> isSliding (player g)))"
proof -
  have r0: "reachable (GameEngine_init cw ch width height mobile)"
    by (rule reachable.constructed [of cw ch width height mobile]) (simp add: GameEngine_new_def)
  have "engine_inv (run inputs (GameEngine_init cw ch width height mobile))"
    using r0 by (intro reachable_inv reachable_run)
  then have a: "\<not> (isJumping (player (run inputs (GameEngine_init cw ch width height mobile))) \<and>
      isSliding (player (run inputs (GameEngine_init cw ch width height mobile))))"
    by (simp add: engine_inv_def)
  have b: "reachable g \<longrightarrow> \<not> (isJumping (player g) \<and> isSliding (player g))"
    using reachable_inv [of g] by (auto simp add: engine_inv_def)
  have c: "isJumping p \<or> isSliding p \<longrightarrow> jump p = p \<and> slide p = p"
    by (simp add: jump_def slide_def)
  have d: "\<not> isJumping p \<and> \<not> isSliding p \<longrightarrow>
      jump p = p\<lparr>isJumping := True, pl_velocity := (pl_velocity p)\<lparr>vy := - 600\<rparr>\<rparr> \<and>
      slide p = p\<lparr>isSliding := True, slideTime := 800\<rparr>"
    by (simp add: jump_def slide_def)
  show ?thesis using a b c d by blast
qed

theorem jump_slide_exclusive_witness:
  "reachable (run [StartGame, KeyDown ''ArrowUp'', KeyDown ''ArrowDown''] (GameEngine_init 800 600 800 600 False)) \<and>
   isJumping (player (run [StartGame, KeyDown ''ArrowUp'', KeyDown ''ArrowDown''] (GameEngine_init 800 600 800 600 False))) \<and>
   \<not> isSliding (player (run [StartGame, KeyDown ''ArrowUp'', KeyDown ''ArrowDown''] (GameEngine_init 800 600 800 600 False))) \<and>
   \<not> isJumping (Player_new 400 480 480) \<and> \<not> isSliding (Player_new 400 480 480) \<and>
   isJumping (jump (Player_new 400 480 480)) \<and>
   vy (pl_velocity (jump (Player_new 400 480 480))) = - 600 \<and>
   slide (jump (Player_new 400 480 480)) = jump (Player_new 400 480 480) \<and>
   jump (slide (Player_new 400 480 480)) = slide (Player_new 400 480 480)"
proof -
  let ?is = "[StartGame, KeyDown ''ArrowUp'', KeyDown ''ArrowDown'']"
  let ?g = "run ?is (GameEngine_init 800 600 800 600 False)"
  let ?p = "Player_new 400 480 480"
  have r: "reachable ?g"
    by (rule reachable_run, rule reachable.constructed [of 800 600 800 600 False])
       (simp add: GameEngine_new_def)
  have j: "isJumping (player ?g)"
    by (simp add: GameEngine_init_def startGame_def resetGame_def setState_def emit_def keydown_def
        onPlayer_def jump_def slide_def Player_new_def Let_def)
  have n: "\<not> isJumping ?p \<and> \<not> isSliding ?p" by (simp add: Player_new_def)
  have j1: "isJumping (jump ?p)" "\<not> isSliding (jump ?p)" by (simp_all add: Player_new_def jump_def)
  have s1: "isSliding (slide ?p)" by (simp add: Player_new_def slide_def)
  show ?thesis
    using r j n j1 s1
      jump_slide_exclusive [of ?p ?is 800 600 800 600 False ?g]
      jump_slide_exclusive [of "jump ?p"]
      jump_slide_exclusive [of "slide ?p"]
    by simp
qed

text \<open>
  C9, as the code has it: the constructor validates nothing and cannot fail. For every
  width and height, zero included, it returns an engine in the Menu state whose lane table
  has exactly the three entries \<open>width / 4\<close>, \<open>width / 2\<close> and \<open>3 * width / 4\<close> and whose ground
  line is \<open>0.8 * height\<close>.
\<close>

theorem constructor_never_fails:
  "GameEngine_new cw ch width height mobile = Inr (GameEngine_init cw ch width height mobile) \<and>
   state (GameEngine_init cw ch width height mobile) = Menu \<and>
   lanePositions (GameEngine_init cw ch width height mobile)
     = [width * 0.25, width * 0.5, width * 0.75] \<and>
   length (lanePositions (GameEngine_init cw ch width height mobile)) = 3 \<and>
   groundY (GameEngine_init cw ch width height mobile) = height * 0.8"
  by (simp add: GameEngine_new_def GameEngine_init_def Let_def)

theorem constructor_zero_area_counterexample:
  "GameEngine_new 0 0 0 0 False = Inr (GameEngine_init 0 0 0 0 False) \<and>
   GameEngine_new 0 0 0 0 False \<noteq> Inl ConfigError \<and>
   lanePositions (GameEngine_init 0 0 0 0 False) = [0, 0, 0] \<and>
   groundY (GameEngine_init 0 0 0 0 False) = 0 \<and>
   state (startGame (GameEngine_init 0 0 0 0 False)) = Playing \<and>
   pl_position (player (startGame (GameEngine_init 0 0 0 0 False))) = \<lparr>vx = 0, vy = 0\<rparr>"
  by (simp add: GameEngine_new_def GameEngine_init_def Let_def startGame_def resetGame_def
      setState_def emit_def Player_new_def Vector2D_new_def laneAt_def)

text \<open>
  C10: \<^verbatim>\<open>startGame\<close> leaves the three spawn timestamps at 0, and the gates compare the
  wall clock with them. So the first frame after \<^verbatim>\<open>startGame\<close>, at any wall-clock time
  beyond 15000 ms and beyond the obstacle interval (epoch milliseconds are far beyond
  both), fires all three gates: after it the lists hold one obstacle, one cluster of one
  to three coins and one power-up, and the three timestamps are the time of the frame.
\<close>

theorem first_tick_fires_all_gates:
  "state (startGame g) = Playing \<and>
   lastObstacleSpawn (startGame g) = 0 \<and> lastCoinSpawn (startGame g) = 0 \<and>
   lastPowerUpSpawn (startGame g) = 0 \<and>
   (reachable g \<and> 15000 < t \<and> obstacleSpawnInterval g < t \<and> 0 \<le> canvas_height g \<longrightarrow>
      length (obstacles (gameLoop rt t nowAt rnd (startGame g))) = 1 \<and>
      length (coins (gameLoop rt t nowAt rnd (startGame g)))
        = numCoins (rnd (draws g + 2)) (rnd (draws g + 3)) \<and>
      length (coins (gameLoop rt t nowAt rnd (startGame g))) \<in> {1, 2, 3} \<and>
      length (powerUps (gameLoop rt t nowAt rnd (startGame g))) = 1 \<and>
      lastObstacleSpawn (gameLoop rt t nowAt rnd (startGame g)) = t \<and>
      lastCoinSpawn (gameLoop rt t nowAt rnd (startGame g)) = t \<and>
      lastPowerUpSpawn (gameLoop rt t nowAt rnd (startGame g)) = t)"
proof -
  let ?G = "startGame g"
  let ?dt = "frameDelta rt ?G"
  let ?C = "countFrame rt ?G"
  let ?U = "gameLoop rt t nowAt rnd ?G"
  have U: "?U = update ?dt t nowAt rnd ?C"
    by (simp add: gameLoop_eq startGame_fields)
  have main: "length (obstacles ?U) = 1 \<and>
      length (coins ?U) = numCoins (rnd (draws g + 2)) (rnd (draws g + 3)) \<and>
      length (coins ?U) \<in> {1, 2, 3} \<and>
      length (powerUps ?U) = 1 \<and>
      lastObstacleSpawn ?U = t \<and> lastCoinSpawn ?U = t \<and> lastPowerUpSpawn ?U = t"
    if h: "reachable g \<and> 15000 < t \<and> obstacleSpawnInterval g < t \<and> 0 \<le> canvas_height g"
  proof -
    from h have "engine_inv g" by (simp add: reachable_inv)
    then have b: "baseSpeed g = 300" by (simp add: engine_inv_def)
    have "300 * ?dt \<le> 300 * 0.016" using frameDelta_le [of rt ?G] by simp
    then have sp: "300 * ?dt < canvas_height g + 150" using h by simp
    then have sp2: "300 * ?dt < canvas_height g + 200" by simp
    have so: "spawnedObstacles t rnd ?C =
        [Obstacle_new (Vector2D_new (laneAt (lanePositions ?C) \<lfloor>rnd (draws g) * 3\<rfloor>) (- 100))
              \<lfloor>rnd (draws g) * 3\<rfloor> ([Barrier, Train, Low] ! nat \<lfloor>rnd (draws g + 1) * 3\<rfloor>)]"
      using h by (simp add: spawnedObstacles_def countFrame_same startGame_fields)
    have sc: "spawnedCoins t rnd ?C =
        map (clusterCoin (lanePositions ?C)
              \<lfloor>rnd (draws g + 2 + numCoinsDraws (rnd (draws g + 2))) * 3\<rfloor>)
          [0..<numCoins (rnd (draws g + 2)) (rnd (draws g + 2 + 1))]"
      using h by (simp add: spawnedCoins_def drawsAfterObstacle_def countFrame_same startGame_fields
          Let_def add.commute add.left_commute)
    have "\<exists>x l ty. spawnedPowerUps t rnd ?C = [PowerUp_new (Vector2D_new x (- 100)) l ty]"
      using h by (simp add: spawnedPowerUps_def countFrame_same startGame_fields Let_def) blast
    then obtain x l ty where sp3: "spawnedPowerUps t rnd ?C = [PowerUp_new (Vector2D_new x (- 100)) l ty]"
      by blast
    have o: "length (obstacles ?U) = 1"
      unfolding U using sp2
      by (simp add: update_lists countFrame_same startGame_fields so b fresh_obstacle)
    have e: "draws g + 2 + 1 = draws g + 3" by simp
    let ?n = "numCoins (rnd (draws g + 2)) (rnd (draws g + 2 + 1))"
    let ?b = "\<lfloor>rnd (draws g + 2 + numCoinsDraws (rnd (draws g + 2))) * 3\<rfloor>"
    let ?pos = "pl_position (Player_update ?dt (lanePositions ?C) (player ?C))"
    let ?hb = "Player_getHitbox (Player_update ?dt (lanePositions ?C) (player ?C))"
    have p1: "coins ?C = []" "gameSpeed ?C = 300" "canvas_height ?C = canvas_height g"
      "(activePowerUps ?C Magnet \<noteq> None) = False"
      by (simp_all add: countFrame_same startGame_fields b)
    have "coins ?U = map (markCoin ?hb)
        (filter (\<lambda>c. vy (co_position c) < canvas_height ?C + 50 \<and> \<not> co_collected c)
          (map (Coin_update ?dt (gameSpeed ?C) ?pos (activePowerUps ?C Magnet \<noteq> None))
             (coins ?C @ spawnedCoins t rnd ?C)))"
      unfolding U by (rule update_lists)
    also have "\<dots> = map (markCoin ?hb)
        (filter (\<lambda>c. vy (co_position c) < canvas_height g + 50 \<and> \<not> co_collected c)
          (map (Coin_update ?dt 300 ?pos False) (map (clusterCoin (lanePositions ?C) ?b) [0..<?n])))"
      by (simp only: p1 sc append_Nil)
    also have "\<dots> = map (markCoin ?hb)
          (map (Coin_update ?dt 300 ?pos False) (map (clusterCoin (lanePositions ?C) ?b) [0..<?n]))"
      by (simp only: fresh_coins_kept [OF sp])
    finally have "length (coins ?U) = ?n"
      by simp
    then have c: "length (coins ?U) = numCoins (rnd (draws g + 2)) (rnd (draws g + 3))"
      unfolding e .
    have p: "length (powerUps ?U) = 1"
      unfolding U using sp
      by (simp add: update_lists countFrame_same startGame_fields sp3 b fresh_powerUp)
    have tm: "lastObstacleSpawn ?U = t \<and> lastCoinSpawn ?U = t \<and> lastPowerUpSpawn ?U = t"
      unfolding U using h by (simp add: update_timers countFrame_same startGame_fields)
    show ?thesis using o c p tm numCoins_range [of "rnd (draws g + 2)" "rnd (draws g + 3)"] by simp
  qed
  have st: "state ?G = Playing \<and> lastObstacleSpawn ?G = 0 \<and> lastCoinSpawn ?G = 0 \<and>
      lastPowerUpSpawn ?G = 0"
    by (simp add: startGame_fields)
  show ?thesis using main st by blast
qed

theorem first_tick_fires_all_gates_witness:
  "reachable (GameEngine_init 800 600 800 600 False) \<and>
   (15000 :: int) < 1700000000000 \<and>
   obstacleSpawnInterval (GameEngine_init 800 600 800 600 False) < 1700000000000 \<and>
   0 \<le> canvas_height (GameEngine_init 800 600 800 600 False) \<and>
   length (obstacles (gameLoop 16 1700000000000 (\<lambda>k. 1700000000000) (\<lambda>n. 1 / 2)
     (startGame (GameEngine_init 800 600 800 600 False)))) = 1 \<and>
   length (coins (gameLoop 16 1700000000000 (\<lambda>k. 1700000000000) (\<lambda>n. 1 / 2)
     (startGame (GameEngine_init 800 600 800 600 False)))) = 2 \<and>
   length (powerUps (gameLoop 16 1700000000000 (\<lambda>k. 1700000000000) (\<lambda>n. 1 / 2)
     (startGame (GameEngine_init 800 600 800 600 False)))) = 1 \<and>
   lastPowerUpSpawn (gameLoop 16 1700000000000 (\<lambda>k. 1700000000000) (\<lambda>n. 1 / 2)
     (startGame (GameEngine_init 800 600 800 600 False))) = 1700000000000"
proof -
  let ?g = "GameEngine_init 800 600 800 600 False"
  have r: "reachable ?g"
    by (rule reachable.constructed [of 800 600 800 600 False]) (simp add: GameEngine_new_def)
  have f: "obstacleSpawnInterval ?g = 2000" "canvas_height ?g = 600" "draws ?g = 0"
    by (simp_all add: GameEngine_init_def Let_def)
  have n: "numCoins (1 / 2) (1 / 2) = 2" by (simp add: numCoins_def)
  show ?thesis
    using r first_tick_fires_all_gates [of ?g 1700000000000 16 "\<lambda>k. 1700000000000" "\<lambda>n. 1 / 2"]
    by (simp add: f n)
qed

end
